theory Spec2Isabelle
  imports Main "HOL-Library.AList" "HOL-Library.Word"
begin

text \<open>
  A model of the Go package \<^verbatim>\<open>httpcache\<close> (\<^verbatim>\<open>httpcache.go\<close>): a \<^verbatim>\<open>http.RoundTripper\<close> that
  answers requests from a cache of serialized responses where it may and hands them to a
  delegate otherwise. The functions of the package are translated one by one, under
  their names; the long \<^verbatim>\<open>RoundTrip\<close> is cut into the blocks of its source, each with its
  line numbers. A panic, an error and a result are values of the model. The standard
  library is modelled in two ways: the string functions are written out, and the
  functions that parse HTTP messages, dates and durations, the clock and the delegate are
  parameters (the record \<open>env\<close>), so that the theorems hold for whatever they compute.
\<close>

section \<open>Strings and header maps\<close>

text \<open>
  Go strings and byte slices are \<open>string\<close> (a list of bytes). The functions of this
  section are the standard-library functions that \<^verbatim>\<open>httpcache.go\<close> calls on
  strings, written out for the arguments the program passes them: every separator and
  cutset in the source is a one-byte ASCII constant.
\<close>

text \<open>\<^verbatim>\<open>strings.Split(s, sep)\<close> for a one-byte separator: never empty, one more
  element than there are separators.\<close>

fun Split :: "string \<Rightarrow> char \<Rightarrow> string list" where
  "Split [] sep = [[]]"
| "Split (c # cs) sep =
     (if c = sep then [] # Split cs sep
      else (case Split cs sep of [] \<Rightarrow> [[c]] | p # ps \<Rightarrow> (c # p) # ps))"

text \<open>\<^verbatim>\<open>strings.Trim(s, cutset)\<close> for an ASCII cutset.\<close>

definition Trim :: "string \<Rightarrow> string \<Rightarrow> string" where
  "Trim s cutset =
     rev (dropWhile (\<lambda>c. c \<in> set cutset) (rev (dropWhile (\<lambda>c. c \<in> set cutset) s)))"

definition HasPrefix :: "string \<Rightarrow> string \<Rightarrow> bool" where
  "HasPrefix s p = (take (length p) s = p)"

definition HasSuffix :: "string \<Rightarrow> string \<Rightarrow> bool" where
  "HasSuffix s p = (length p \<le> length s \<and> drop (length s - length p) s = p)"

fun Contains :: "string \<Rightarrow> string \<Rightarrow> bool" where
  "Contains [] sub = (sub = [])"
| "Contains (c # cs) sub = (HasPrefix (c # cs) sub \<or> Contains cs sub)"

text \<open>\<^verbatim>\<open>strings.ContainsRune(s, r)\<close> for an ASCII rune.\<close>

definition ContainsRune :: "string \<Rightarrow> char \<Rightarrow> bool" where
  "ContainsRune s r = (r \<in> set s)"

subsection \<open>Canonical header keys\<close>

definition isLower :: "char \<Rightarrow> bool" where
  "isLower c = ((97::nat) \<le> of_char c \<and> of_char c \<le> (122::nat))"

definition isUpper :: "char \<Rightarrow> bool" where
  "isUpper c = ((65::nat) \<le> of_char c \<and> of_char c \<le> (90::nat))"

definition isDigit :: "char \<Rightarrow> bool" where
  "isDigit c = ((48::nat) \<le> of_char c \<and> of_char c \<le> (57::nat))"

text \<open>The bytes of an HTTP token (\<^verbatim>\<open>validHeaderFieldByte\<close> of net/textproto).\<close>

definition validHeaderFieldByte :: "char \<Rightarrow> bool" where
  "validHeaderFieldByte c =
     (isLower c \<or> isUpper c \<or> isDigit c \<or>
      c \<in> set (''!#$%&*+-.^_|~'' @ [char_of (39::nat), char_of (96::nat)]))"

fun canonicalMIMEHeaderKey :: "bool \<Rightarrow> string \<Rightarrow> string" where
  "canonicalMIMEHeaderKey upper [] = []"
| "canonicalMIMEHeaderKey upper (c # cs) =
     (let c' = (if upper \<and> isLower c then char_of (of_char c - (32::nat))
                else if \<not> upper \<and> isUpper c then char_of (of_char c + (32::nat))
                else c)
      in c' # canonicalMIMEHeaderKey (c' = CHR ''-'') cs)"

text \<open>\<^verbatim>\<open>http.CanonicalHeaderKey\<close>: the first letter and every letter after a hyphen in
  upper case, the others in lower case; a key holding a byte that is not a token byte
  (a space, for one) is returned as it is. This is the function of the current standard
  library; releases of Go differ only on keys that hold such a byte.\<close>

definition CanonicalHeaderKey :: "string \<Rightarrow> string" where
  "CanonicalHeaderKey s =
     (if list_all validHeaderFieldByte s then canonicalMIMEHeaderKey True s else s)"

text \<open>\<^verbatim>\<open>http.Header\<close> is \<^verbatim>\<open>map[string][]string\<close>. It is an association list here, read
  with \<open>map_of\<close> and written with \<open>AList.update\<close>; the order of the list stands for Go's
  unspecified iteration order. No statement of the program writes into a value slice
  in place, so the slices are immutable lists.\<close>

type_synonym header = "(string \<times> string list) list"

text \<open>\<^verbatim>\<open>h[key]\<close>: the nil slice for a missing key.\<close>

definition Header_index :: "header \<Rightarrow> string \<Rightarrow> string list" where
  "Header_index h key = (case map_of h key of None \<Rightarrow> [] | Some vs \<Rightarrow> vs)"

definition Header_Get :: "header \<Rightarrow> string \<Rightarrow> string" where
  "Header_Get h key =
     (case Header_index h (CanonicalHeaderKey key) of [] \<Rightarrow> [] | v # _ \<Rightarrow> v)"

definition Header_Set :: "header \<Rightarrow> string \<Rightarrow> string \<Rightarrow> header" where
  "Header_Set h key v = AList.update (CanonicalHeaderKey key) [v] h"

section \<open>Cache-Control directives\<close>

type_synonym cacheControl = "string \<rightharpoonup> string"

text \<open>The loop of \<^verbatim>\<open>parseCacheControl\<close> over the comma-separated parts. \<open>None\<close> is the
  run-time panic of \<^verbatim>\<open>keyval[1]\<close> on a slice of length one.\<close>

fun parseCacheControl_parts :: "string list \<Rightarrow> cacheControl \<Rightarrow> cacheControl option" where
  "parseCacheControl_parts [] cc = Some cc"
| "parseCacheControl_parts (part0 # parts) cc =
     (let part = Trim part0 '' '' in
      if part = [] then parseCacheControl_parts parts cc
      else if ContainsRune part CHR ''='' then
        (case Split part CHR ''='' of
           k # v # _ \<Rightarrow> parseCacheControl_parts parts (cc(Trim k '' '' \<mapsto> Trim v '',''))
         | _ \<Rightarrow> None)
      else parseCacheControl_parts parts (cc(part \<mapsto> [])))"

definition parseCacheControl :: "header \<Rightarrow> cacheControl option" where
  "parseCacheControl headers =
     parseCacheControl_parts (Split (Header_Get headers ''Cache-Control'') CHR '','') Map.empty"

text \<open>The parser as the specification words it, with the case of the names kept and the
  value cut at the second equals sign, for one header value: split on commas,
  trim the spaces of each token, skip empty tokens; a token with an equals sign gives the
  text before the first equals sign (spaces trimmed, case kept) as the name and the text
  up to the next equals sign as the value; a token without one gives itself with the
  empty value; a later token overrides an earlier one of the same name.\<close>

definition directive_of :: "string \<Rightarrow> string \<times> string" where
  "directive_of tok =
     (if CHR ''='' \<in> set tok
      then (Trim (takeWhile (\<lambda>c. c \<noteq> CHR ''='') tok) '' '',
            takeWhile (\<lambda>c. c \<noteq> CHR ''='') (tl (dropWhile (\<lambda>c. c \<noteq> CHR ''='') tok)))
      else (tok, []))"

definition directives :: "string \<Rightarrow> cacheControl" where
  "directives v =
     map_of (rev (map directive_of
       (filter (\<lambda>tok. tok \<noteq> []) (map (\<lambda>part. Trim part '' '') (Split v CHR '','')))))"

section \<open>The data of the program\<close>

text \<open>\<^verbatim>\<open>strconv.ParseInt(s, 10, 64)\<close>: the value and whether the error is nil. A syntax error
  gives 0, a value out of range gives the nearest bound of \<^verbatim>\<open>int64\<close>; both with an error.\<close>

definition digitVal :: "char \<Rightarrow> int" where
  "digitVal c = of_char c - 48"

definition ParseInt :: "string \<Rightarrow> 64 word \<times> bool" where
  "ParseInt s0 =
     (case s0 of
        [] \<Rightarrow> (0, False)
      | c # cs \<Rightarrow>
         (let neg = (c = CHR ''-'');
              s = (if c = CHR ''+'' \<or> c = CHR ''-'' then cs else s0)
          in if s = [] \<or> \<not> list_all isDigit s then (0, False)
             else (let un = foldl (\<lambda>n d. 10 * n + digitVal d) 0 s
                   in if \<not> neg \<and> 9223372036854775808 \<le> un then (9223372036854775807, False)
                      else if neg \<and> 9223372036854775808 < un then (9223372036854775808, False)
                      else (if neg then - of_int un else of_int un, True))))"

type_synonym duration = "64 word" \<comment> \<open>\<^verbatim>\<open>time.Duration\<close>: nanoseconds in an \<^verbatim>\<open>int64\<close>\<close>

type_synonym time = int \<comment> \<open>\<^verbatim>\<open>time.Time\<close>: an instant; only the library functions below read it\<close>

text \<open>The body of a response is a reader: \<open>Bytes b\<close> when reading it to the end gives \<open>b\<close>,
  \<open>Unreadable\<close> when \<^verbatim>\<open>ioutil.ReadAll\<close> returns an error.\<close>

datatype body = Bytes string | Unreadable

record response =
  StatusCode :: int
  Status :: string
  RHeader :: header
  Body :: body

text \<open>The fields of \<^verbatim>\<open>http.Request\<close> that the program reads. \<open>Header\<close> is a reference to a
  header map in the caller's \<open>nat option request\<close> (\<open>None\<close> is the nil map); the functions
  that only read a request take it with the contents of the map, a \<open>header request\<close>.\<close>

record 'h request =
  Method :: string
  URL :: string
  Header :: 'h

datatype error =
  ErrLoadingResponse | ErrParseInt | ErrNonValidRanges | ErrNoDateHeader | ErrTimeParse
  | ErrTransport string

text \<open>What a call does: it panics, returns an error, or returns a value.\<close>

datatype 'a result = Panic | Err error | Ok 'a

text \<open>The library functions and delegates the program calls without defining them; every
  theorem holds for each choice of them.
  \<^item> \<open>ReadResponse b req\<close>: \<^verbatim>\<open>http.ReadResponse(bufio.NewReader(b), req)\<close>, \<open>None\<close> for an error;
  \<^item> \<open>DumpResponse resp\<close>: \<^verbatim>\<open>httputil.DumpResponse(resp, true)\<close>, \<open>None\<close> for an error;
  \<^item> \<open>ReadAll_spare b\<close>: the bytes between the length and the capacity of the slice that
    \<^verbatim>\<open>ioutil.ReadAll\<close> returns for a body \<open>b\<close> (a slice expression may reach into them);
  \<^item> \<open>TrimSpace\<close>: \<^verbatim>\<open>strings.TrimSpace\<close>;
  \<^item> \<open>time_Parse s\<close>: \<^verbatim>\<open>time.Parse(time.RFC1123, s)\<close>, \<open>None\<close> for an error;
  \<^item> \<open>ParseDuration s\<close>: \<^verbatim>\<open>time.ParseDuration(s)\<close>, \<open>None\<close> for an error;
  \<^item> \<open>clock_since d\<close>: \<^verbatim>\<open>clock.since(d)\<close>, the package's clock;
  \<^item> \<open>time_Sub t u\<close>: \<^verbatim>\<open>t.Sub(u)\<close>;
  \<^item> \<open>DefaultTransport\<close>: \<^verbatim>\<open>http.DefaultTransport.RoundTrip\<close>.\<close>

record env =
  ReadResponse :: "string \<Rightarrow> header request \<Rightarrow> response option"
  DumpResponse :: "response \<Rightarrow> string option"
  ReadAll_spare :: "string \<Rightarrow> string"
  TrimSpace :: "string \<Rightarrow> string"
  time_Parse :: "string \<Rightarrow> time option"
  ParseDuration :: "string \<Rightarrow> duration option"
  clock_since :: "time \<Rightarrow> duration"
  time_Sub :: "time \<Rightarrow> time \<Rightarrow> duration"
  DefaultTransport :: "header request \<Rightarrow> error + response"

definition XFromCache :: string where
  "XFromCache = ''X-From-Cache''"

definition cacheKey :: "'h request \<Rightarrow> string" where
  "cacheKey req = URL req"

section \<open>CachedResponse\<close>

text \<open>Lines 95 to 118: the start and the end of the requested range, for a body of \<open>len\<close>
  bytes. An index past the end of \<^verbatim>\<open>rangeList\<close> panics.\<close>

definition rangeRequest :: "nat \<Rightarrow> string \<Rightarrow> (64 word \<times> 64 word) result" where
  "rangeRequest len rangeValue =
     (let rangeList = Split rangeValue CHR ''-'' in
      if HasPrefix rangeValue ''-'' then
        (case rangeList of
           _ # l1 # _ \<Rightarrow>
             (case ParseInt l1 of
                (e, ok) \<Rightarrow> if ok then Ok (of_nat len - e, of_nat len) else Err ErrParseInt)
         | _ \<Rightarrow> Panic)
      else if HasSuffix rangeValue ''-'' then
        (case rangeList of
           l0 # ls \<Rightarrow>
             (case ParseInt l0 of
                (s, ok) \<Rightarrow> if ok then Ok (s, of_nat len)
                           else (case ls of [] \<Rightarrow> Panic | _ # _ \<Rightarrow> Err ErrParseInt))
         | [] \<Rightarrow> Panic)
      else
        (case rangeList of
           l0 # l1 # _ \<Rightarrow> Ok (fst (ParseInt l0), fst (ParseInt l1))
         | _ \<Rightarrow> Panic))"

text \<open>The slice expression \<^verbatim>\<open>body[lo:hi]\<close> of line 124: in range up to the capacity of
  \<^verbatim>\<open>body\<close>, a panic (\<open>None\<close>) otherwise.\<close>

definition sliceBody :: "env \<Rightarrow> string \<Rightarrow> 64 word \<Rightarrow> 64 word \<Rightarrow> string option" where
  "sliceBody env body lo hi =
     (let buf = body @ ReadAll_spare env body in
      if 0 \<le> sint lo \<and> sint lo \<le> sint hi \<and> sint hi \<le> int (length buf)
      then Some (take (nat (sint hi) - nat (sint lo)) (drop (nat (sint lo)) buf))
      else None)"

text \<open>\<open>Ok None\<close> is the return of two nils (nothing stored under the key).\<close>

definition CachedResponse ::
  "env \<Rightarrow> (string \<rightharpoonup> string) \<Rightarrow> header request \<Rightarrow> response option result" where
  "CachedResponse env c req =
     (case c (cacheKey req) of
        None \<Rightarrow> Ok None
      | Some cachedVal \<Rightarrow>
         (case ReadResponse env cachedVal req of
            None \<Rightarrow> Err ErrLoadingResponse
          | Some returnResponse \<Rightarrow>
             (let rangeRaw = Header_Get (Header req) ''range'' in
              if rangeRaw = [] then Ok (Some returnResponse)
              else
               (case Split rangeRaw CHR ''='' of
                  rangeType # tmp1 # _ \<Rightarrow>
                    if rangeType \<noteq> ''bytes'' then Ok (Some returnResponse)
                    else
                     (let rangeValue =
                            (if Contains tmp1 '',''
                             then (case Split tmp1 CHR '','' of [] \<Rightarrow> tmp1 | r0 # _ \<Rightarrow> r0)
                             else tmp1)
                      in case Body returnResponse of
                           Unreadable \<Rightarrow> Ok (Some returnResponse)
                         | Bytes body \<Rightarrow>
                            (case rangeRequest (length body) rangeValue of
                               Panic \<Rightarrow> Panic
                             | Err e \<Rightarrow> Err e
                             | Ok (rangeRequestStart, rangeRequestEnd) \<Rightarrow>
                                 if sint rangeRequestEnd \<le> sint rangeRequestStart
                                 then Err ErrNonValidRanges
                                 else
                                  (case sliceBody env body rangeRequestStart rangeRequestEnd of
                                     None \<Rightarrow> Panic
                                   | Some b \<Rightarrow> Ok (Some (returnResponse\<lparr>Body := Bytes b\<rparr>)))))
                | _ \<Rightarrow> Panic))))"

section \<open>Freshness\<close>

definition Date :: "env \<Rightarrow> header \<Rightarrow> error + time" where
  "Date env respHeaders =
     (let dateHeader = Header_Get respHeaders ''date'' in
      if dateHeader = [] then Inl ErrNoDateHeader
      else (case time_Parse env dateHeader of None \<Rightarrow> Inl ErrTimeParse | Some d \<Rightarrow> Inr d))"

datatype freshness = stale | fresh | transparent

text \<open>\<open>None\<close> is a panic in \<^verbatim>\<open>parseCacheControl\<close>. A duration that does not parse is the
  zero duration for a lifetime and leaves the age as it is. Durations are compared as
  signed 64-bit integers, and the sums wrap around as Go's do.\<close>

definition getFreshness :: "env \<Rightarrow> header \<Rightarrow> header \<Rightarrow> freshness option" where
  "getFreshness env respHeaders reqHeaders =
     (case parseCacheControl respHeaders of
        None \<Rightarrow> None
      | Some respCacheControl \<Rightarrow>
         (case parseCacheControl reqHeaders of
            None \<Rightarrow> None
          | Some reqCacheControl \<Rightarrow>
             Some
              (if reqCacheControl ''no-cache'' \<noteq> None then transparent
               else if respCacheControl ''no-cache'' \<noteq> None then stale
               else if reqCacheControl ''only-if-cached'' \<noteq> None then fresh
               else
                (case Date env respHeaders of
                   Inl _ \<Rightarrow> stale
                 | Inr date \<Rightarrow>
                    (let currentAge = clock_since env date;
                         lifetime =
                           (case respCacheControl ''max-age'' of
                              Some maxAge \<Rightarrow>
                                (case ParseDuration env (maxAge @ ''s'') of
                                   None \<Rightarrow> 0 | Some d \<Rightarrow> d)
                            | None \<Rightarrow>
                                (let expiresHeader = Header_Get respHeaders ''Expires'' in
                                 if expiresHeader \<noteq> [] then
                                   (case time_Parse env expiresHeader of
                                      None \<Rightarrow> 0
                                    | Some expires \<Rightarrow> time_Sub env expires date)
                                 else 0));
                         lifetime =
                           (case reqCacheControl ''max-age'' of
                              Some maxAge \<Rightarrow>
                                (case ParseDuration env (maxAge @ ''s'') of
                                   None \<Rightarrow> 0 | Some d \<Rightarrow> d)
                            | None \<Rightarrow> lifetime);
                         currentAge =
                           (case reqCacheControl ''min-fresh'' of
                              Some minfresh \<Rightarrow>
                                (case ParseDuration env (minfresh @ ''s'') of
                                   None \<Rightarrow> currentAge
                                 | Some minfreshDuration \<Rightarrow> currentAge + minfreshDuration)
                            | None \<Rightarrow> currentAge)
                     in case reqCacheControl ''max-stale'' of
                          Some maxstale \<Rightarrow>
                            if maxstale = [] then fresh
                            else
                             (let currentAge =
                                    (case ParseDuration env (maxstale @ ''s'') of
                                       None \<Rightarrow> currentAge
                                     | Some maxstaleDuration \<Rightarrow> currentAge - maxstaleDuration)
                              in if sint currentAge < sint lifetime then fresh else stale)
                        | None \<Rightarrow> if sint currentAge < sint lifetime then fresh else stale)))))"

section \<open>Vary, end-to-end headers, storability\<close>

definition headerAllCommaSepValues :: "env \<Rightarrow> header \<Rightarrow> string \<Rightarrow> string list" where
  "headerAllCommaSepValues env headers name =
     concat (map (\<lambda>val. map (TrimSpace env) (Split val CHR '',''))
                 (Header_index headers (CanonicalHeaderKey name)))"

text \<open>The loop returns false at the first header of \<^verbatim>\<open>Vary\<close> whose value in the request
  differs from the value stored under \<^verbatim>\<open>X-Varied-\<close>.\<close>

definition varyMatches :: "env \<Rightarrow> response \<Rightarrow> header request \<Rightarrow> bool" where
  "varyMatches env cachedResp req =
     list_all
       (\<lambda>header0. let header = CanonicalHeaderKey header0 in
          \<not> (header \<noteq> [] \<and>
             Header_Get (Header req) header \<noteq>
             Header_Get (RHeader cachedResp) (''X-Varied-'' @ header)))
       (headerAllCommaSepValues env (RHeader cachedResp) ''vary'')"

text \<open>The keys of the result come in the order of the association list, which stands for
  the iteration order of the map.\<close>

definition getEndToEndHeaders :: "header \<Rightarrow> string list" where
  "getEndToEndHeaders respHeaders =
     (let hopByHopHeaders =
            [''Connection'', ''Keep-Alive'', ''Proxy-Authenticate'', ''Proxy-Authorization'',
             ''Te'', ''Trailers'', ''Transfer-Encoding'', ''Upgrade''] @
            map CanonicalHeaderKey
              (filter (\<lambda>extra. Trim extra '' '' \<noteq> [])
                 (Split (Header_Get respHeaders ''connection'') CHR '',''))
      in filter (\<lambda>respHeader. respHeader \<notin> set hopByHopHeaders) (map fst respHeaders))"

definition canStore :: "cacheControl \<Rightarrow> cacheControl \<Rightarrow> bool" where
  "canStore reqCacheControl respCacheControl =
     (if respCacheControl ''no-store'' \<noteq> None then False
      else if reqCacheControl ''no-store'' \<noteq> None then False
      else True)"

text \<open>\<open>None\<close> is the panic on an error of \<^verbatim>\<open>http.ReadResponse\<close>.\<close>

definition newGatewayTimeoutResponse :: "env \<Rightarrow> header request \<Rightarrow> response option" where
  "newGatewayTimeoutResponse env req =
     ReadResponse env
       (''HTTP/1.1 504 Gateway Timeout'' @
        [char_of (13::nat), char_of (10::nat), char_of (13::nat), char_of (10::nat)]) req"

section \<open>Requests and the header maps they refer to\<close>

text \<open>The header maps that exist, by address. A request refers to its map; two requests that
  refer to one address share it, and a write through one is seen through the other.\<close>

type_synonym heap = "header list"

definition deref :: "heap \<Rightarrow> nat option \<Rightarrow> header" where
  "deref hp p = (case p of None \<Rightarrow> [] | Some a \<Rightarrow> if a < length hp then hp ! a else [])"

text \<open>The request with the contents of its header map, as the functions that only read
  it take it.\<close>

definition load :: "heap \<Rightarrow> nat option request \<Rightarrow> header request" where
  "load hp req = \<lparr>Method = Method req, URL = URL req, Header = deref hp (Header req)\<rparr>"

text \<open>\<^verbatim>\<open>req.Header.Set(key, v)\<close> through the reference: a write into a nil map panics
  (\<open>None\<close>).\<close>

definition Header_Set_at :: "heap \<Rightarrow> nat option \<Rightarrow> string \<Rightarrow> string \<Rightarrow> heap option" where
  "Header_Set_at hp p key v =
     (case p of
        None \<Rightarrow> None
      | Some a \<Rightarrow> if a < length hp then Some (hp[a := Header_Set (hp ! a) key v]) else None)"

text \<open>\<^verbatim>\<open>cloneRequest\<close>: a copy of the struct, and a new map (at a new address) that the loop
  fills with the entries of the old one. Go leaves the order of the loop open; it runs
  here from the last entry of the list to the first, so that the reading of the copy is
  the reading of the original.\<close>

definition cloneRequest :: "heap \<Rightarrow> nat option request \<Rightarrow> heap \<times> nat option request" where
  "cloneRequest hp r =
     (let r2 = r;
          newHeader = foldr (\<lambda>(k, s) m. AList.update k s m) (deref hp (Header r)) []
      in (hp @ [newHeader], r2\<lparr>Header := Some (length hp)\<rparr>))"

section \<open>RoundTrip\<close>

text \<open>The transport with its two settings. The contents of the cache, the header maps and
  the requests handed to the delegate so far are the state. The cache is the map of
  \<^verbatim>\<open>MemoryCache\<close>: \<^verbatim>\<open>Get\<close> is the lookup \<open>c key\<close>, \<^verbatim>\<open>Set\<close> the update \<open>c(key \<mapsto> v)\<close> and
  \<^verbatim>\<open>Delete\<close> the removal \<open>c(key := None)\<close>. The calls to the logger write to a log and
  change no result; they are left out, but for the panic that an argument of theirs can
  raise.\<close>

record transport =
  Transport :: "(header request \<Rightarrow> error + response) option"
  MarkCachedResponses :: bool

record state =
  Cache :: "string \<rightharpoonup> string"
  heap :: heap
  calls :: "header request list"

text \<open>Lines 245 to 255: the validators, written into the header map of the request.\<close>

definition addValidators :: "header \<Rightarrow> heap \<Rightarrow> nat option \<Rightarrow> heap option" where
  "addValidators cachedHeader hp p =
     (let etag = Header_Get cachedHeader ''etag'' in
      case (if etag \<noteq> [] \<and> Header_Get (deref hp p) ''etag'' = []
            then Header_Set_at hp p ''if-none-match'' etag else Some hp) of
        None \<Rightarrow> None
      | Some hp1 \<Rightarrow>
         (let lastModified = Header_Get cachedHeader ''last-modified'' in
          if lastModified \<noteq> [] \<and> Header_Get (deref hp1 p) ''last-modified'' = []
          then Header_Set_at hp1 p ''if-modified-since'' lastModified else Some hp1))"

text \<open>Lines 261 to 266: the cached response with the end-to-end headers of the 304.\<close>

definition merge304 :: "response \<Rightarrow> response \<Rightarrow> response" where
  "merge304 cachedResp resp =
     cachedResp
       \<lparr>StatusCode := 200, Status := ''200 OK'',
        RHeader := foldl (\<lambda>h header. AList.update header (Header_index (RHeader resp) header) h)
                     (RHeader cachedResp) (getEndToEndHeaders (RHeader resp))\<rparr>"

text \<open>Lines 293 to 300: the values of the request for the headers of \<^verbatim>\<open>Vary\<close>.\<close>

definition setVaried :: "env \<Rightarrow> header \<Rightarrow> response \<Rightarrow> response" where
  "setVaried env reqHeader resp =
     resp\<lparr>RHeader :=
       foldl (\<lambda>h varyKey0.
                let varyKey = CanonicalHeaderKey varyKey0;
                    fakeHeader = ''X-Varied-'' @ varyKey;
                    reqValue = Header_Get reqHeader varyKey
                in if reqValue \<noteq> [] then Header_Set h fakeHeader reqValue else h)
             (RHeader resp) (headerAllCommaSepValues env (RHeader resp) ''vary'')\<rparr>"

text \<open>Lines 289 to 308: store the response or delete the entry, and return the response.\<close>

definition storeResponse ::
  "env \<Rightarrow> state \<Rightarrow> nat option request \<Rightarrow> response \<Rightarrow> response result \<times> state" where
  "storeResponse env st req resp =
     (case parseCacheControl (deref (heap st) (Header req)) of
        None \<Rightarrow> (Panic, st)
      | Some reqCacheControl \<Rightarrow>
         (case parseCacheControl (RHeader resp) of
            None \<Rightarrow> (Panic, st)
          | Some respCacheControl \<Rightarrow>
             if canStore reqCacheControl respCacheControl then
               (let resp1 = setVaried env (deref (heap st) (Header req)) resp in
                case DumpResponse env resp1 of
                  Some respBytes \<Rightarrow>
                    (Ok resp1, st\<lparr>Cache := (Cache st)(cacheKey req \<mapsto> respBytes)\<rparr>)
                | None \<Rightarrow> (Ok resp1, st))
             else (Ok resp, st\<lparr>Cache := (Cache st)(cacheKey req := None)\<rparr>)))"

text \<open>Lines 258 to 276, and then the store: the fetch when a cached response exists.\<close>

definition revalidate ::
  "env \<Rightarrow> (header request \<Rightarrow> error + response) \<Rightarrow> state \<Rightarrow> nat option request \<Rightarrow>
   response \<Rightarrow> response result \<times> state" where
  "revalidate env rt st req cachedResp =
     (let sent = load (heap st) req;
          st1 = st\<lparr>calls := calls st @ [sent]\<rparr>
      in case rt sent of
           Inr resp \<Rightarrow>
             if Method req = ''GET'' \<and> StatusCode resp = 304
             then storeResponse env st1 req (merge304 cachedResp resp)
             else storeResponse env
                    (if StatusCode resp \<noteq> 200
                     then st1\<lparr>Cache := (Cache st1)(cacheKey req := None)\<rparr> else st1)
                    req resp
         | Inl e \<Rightarrow> (Err e, st1\<lparr>Cache := (Cache st1)(cacheKey req := None)\<rparr>))"

text \<open>Lines 277 to 287, and then the store: no cached response.\<close>

definition fetchMiss ::
  "env \<Rightarrow> (header request \<Rightarrow> error + response) \<Rightarrow> state \<Rightarrow> nat option request \<Rightarrow>
   response result \<times> state" where
  "fetchMiss env rt st req =
     (case parseCacheControl (deref (heap st) (Header req)) of
        None \<Rightarrow> (Panic, st)
      | Some reqCacheControl \<Rightarrow>
         if reqCacheControl ''only-if-cached'' \<noteq> None then
           (case newGatewayTimeoutResponse env (load (heap st) req) of
              None \<Rightarrow> (Panic, st)
            | Some resp \<Rightarrow> storeResponse env st req resp)
         else
           (let sent = load (heap st) req;
                st1 = st\<lparr>calls := calls st @ [sent]\<rparr>
            in case rt sent of
                 Inl e \<Rightarrow> (Err e, st1)
               | Inr resp \<Rightarrow> storeResponse env st1 req resp))"

text \<open>Lines 234 to 236: the mark on a response that comes from the cache.\<close>

definition markCached :: "transport \<Rightarrow> response \<Rightarrow> response" where
  "markCached t cachedResp =
     (if MarkCachedResponses t
      then cachedResp\<lparr>RHeader := Header_Set (RHeader cachedResp) XFromCache ''1''\<rparr>
      else cachedResp)"

text \<open>Lines 224 to 227: the delegate, \<^verbatim>\<open>http.DefaultTransport\<close> when none is set.\<close>

definition roundTripper :: "env \<Rightarrow> transport \<Rightarrow> header request \<Rightarrow> error + response" where
  "roundTripper env t = (case Transport t of None \<Rightarrow> DefaultTransport env | Some f \<Rightarrow> f)"

definition RoundTrip ::
  "env \<Rightarrow> transport \<Rightarrow> state \<Rightarrow> nat option request \<Rightarrow> response result \<times> state" where
  "RoundTrip env t st r =
     (case cloneRequest (heap st) r of
        (hp1, req) \<Rightarrow>
         (let st1 = st\<lparr>heap := hp1\<rparr>;
              rt = roundTripper env t
          in if \<not> (Method req = ''GET'' \<or> Method req = ''HEAD'') then
               (let st2 = st1\<lparr>Cache := (Cache st1)(cacheKey req := None)\<rparr>;
                    sent = load (heap st2) req;
                    st3 = st2\<lparr>calls := calls st2 @ [sent]\<rparr>
                in case rt sent of Inl e \<Rightarrow> (Err e, st3) | Inr resp \<Rightarrow> (Ok resp, st3))
             else
               (case CachedResponse env (Cache st1) (load hp1 req) of
                  Panic \<Rightarrow> (Panic, st1)
                | Ok (Some cachedResp0) \<Rightarrow>
                   (let cachedResp = markCached t cachedResp0
                    in if varyMatches env cachedResp (load hp1 req) then
                         (case getFreshness env (RHeader cachedResp) (deref hp1 (Header req)) of
                            None \<Rightarrow> (Panic, st1)
                          | Some freshness \<Rightarrow>
                             if freshness = fresh then (Ok cachedResp, st1)
                             else if freshness = stale then
                               (case addValidators (RHeader cachedResp) hp1 (Header req) of
                                  None \<Rightarrow> (Panic, st1)
                                | Some hp2 \<Rightarrow> revalidate env rt (st1\<lparr>heap := hp2\<rparr>) req cachedResp)
                             else revalidate env rt st1 req cachedResp)
                       else revalidate env rt st1 req cachedResp)
                | _ \<Rightarrow> fetchMiss env rt st1 req)))"

text \<open>The clone that \<open>RoundTrip\<close> works on, with the contents of its header map as
  \<open>cloneRequest\<close> leaves them: what \<open>CachedResponse\<close> and, when no validator is added, the
  delegate are given.\<close>

definition cloned :: "heap \<Rightarrow> nat option request \<Rightarrow> header request" where
  "cloned hp r = (case cloneRequest hp r of (hp1, req) \<Rightarrow> load hp1 req)"

section \<open>An example environment\<close>

text \<open>One choice of the library functions, right on the inputs the examples below give
  them, to run the program on concrete requests. Instants are seconds since 1970, the
  clock stands one minute after \<^verbatim>\<open>Mon, 02 Jan 2006 15:04:05 GMT\<close>, durations are
  decimal seconds, and the slices that \<^verbatim>\<open>ReadAll\<close> returns have no spare capacity.\<close>

definition CRLF :: string where
  "CRLF = [char_of (13::nat), char_of (10::nat)]"

definition storedPlain :: string where
  "storedPlain = ''HTTP/1.1 200 OK'' @ CRLF @ ''Content-Length: 10'' @ CRLF @ CRLF @ ''abcdefghij''"

definition respPlain :: response where
  "respPlain = \<lparr>StatusCode = 200, Status = ''200 OK'',
                RHeader = [(''Content-Length'', [''10''])], Body = Bytes ''abcdefghij''\<rparr>"

definition storedFresh :: string where
  "storedFresh = ''HTTP/1.1 200 OK'' @ CRLF @ ''Cache-Control: max-age=3600'' @ CRLF @
     ''Date: Mon, 02 Jan 2006 15:04:05 GMT'' @ CRLF @ ''Etag: v1'' @ CRLF @ CRLF @ ''abcdefghij''"

definition respFresh :: response where
  "respFresh = \<lparr>StatusCode = 200, Status = ''200 OK'',
                RHeader = [(''Cache-Control'', [''max-age=3600'']),
                           (''Date'', [''Mon, 02 Jan 2006 15:04:05 GMT'']),
                           (''Etag'', [''v1''])],
                Body = Bytes ''abcdefghij''\<rparr>"

definition storedStale :: string where
  "storedStale = ''HTTP/1.1 200 OK'' @ CRLF @ ''Cache-Control: max-age=30'' @ CRLF @
     ''Date: Mon, 02 Jan 2006 15:04:05 GMT'' @ CRLF @ ''Etag: v1'' @ CRLF @
     ''Last-Modified: Mon, 02 Jan 2006 15:00:00 GMT'' @ CRLF @ CRLF @ ''abcdefghij''"

definition respStale :: response where
  "respStale = \<lparr>StatusCode = 200, Status = ''200 OK'',
                RHeader = [(''Cache-Control'', [''max-age=30'']),
                           (''Date'', [''Mon, 02 Jan 2006 15:04:05 GMT'']),
                           (''Etag'', [''v1'']),
                           (''Last-Modified'', [''Mon, 02 Jan 2006 15:00:00 GMT''])],
                Body = Bytes ''abcdefghij''\<rparr>"

definition storedVary :: string where
  "storedVary = ''HTTP/1.1 200 OK'' @ CRLF @ ''Vary: Accept-Language'' @ CRLF @
     ''X-Varied-Accept-Language: en'' @ CRLF @ CRLF @ ''hello''"

definition respVary :: response where
  "respVary = \<lparr>StatusCode = 200, Status = ''200 OK'',
               RHeader = [(''Vary'', [''Accept-Language'']),
                          (''X-Varied-Accept-Language'', [''en''])],
               Body = Bytes ''hello''\<rparr>"

definition storedGatewayTimeout :: string where
  "storedGatewayTimeout = ''HTTP/1.1 504 Gateway Timeout'' @ CRLF @ CRLF"

definition respGatewayTimeout :: response where
  "respGatewayTimeout = \<lparr>StatusCode = 504, Status = ''504 Gateway Timeout'',
                         RHeader = [], Body = Bytes []\<rparr>"

definition exampleReadResponse :: "string \<Rightarrow> header request \<Rightarrow> response option" where
  "exampleReadResponse b req =
     map_of [(storedPlain, respPlain), (storedFresh, respFresh), (storedStale, respStale),
             (storedVary, respVary), (storedGatewayTimeout, respGatewayTimeout)] b"

definition exampleDumpResponse :: "response \<Rightarrow> string option" where
  "exampleDumpResponse resp =
     (case Body resp of
        Unreadable \<Rightarrow> None
      | Bytes b \<Rightarrow>
          Some (''HTTP/1.1 '' @ Status resp @ CRLF @
                concat (map (\<lambda>(k, vs). concat (map (\<lambda>v. k @ '': '' @ v @ CRLF) vs)) (RHeader resp)) @
                CRLF @ b))"

definition exampleTimeParse :: "string \<Rightarrow> time option" where
  "exampleTimeParse s =
     map_of [(''Mon, 02 Jan 2006 15:00:00 GMT'', 1136214000),
             (''Mon, 02 Jan 2006 15:04:05 GMT'', 1136214245),
             (''Mon, 02 Jan 2006 15:04:06 GMT'', 1136214246),
             (''Mon, 02 Jan 2006 16:04:05 GMT'', 1136217845)] s"

definition exampleParseDuration :: "string \<Rightarrow> duration option" where
  "exampleParseDuration s =
     (if s \<noteq> [] \<and> last s = CHR ''s'' \<and> list_all isDigit (butlast s) \<and> butlast s \<noteq> [] \<and>
         length s \<le> 9
      then Some (1000000000 * fst (ParseInt (butlast s))) else None)"

definition exampleSub :: "time \<Rightarrow> time \<Rightarrow> duration" where
  "exampleSub t u =
     (let d = (t - u) * 1000000000 in
      if d < - 9223372036854775808 then 9223372036854775808
      else if 9223372036854775808 \<le> d then 9223372036854775807 else of_int d)"

definition exampleEnv :: env where
  "exampleEnv =
     \<lparr>ReadResponse = exampleReadResponse,
      DumpResponse = exampleDumpResponse,
      ReadAll_spare = (\<lambda>b. []),
      TrimSpace = (\<lambda>s. Trim s [CHR '' '', char_of (9::nat), char_of (10::nat), char_of (11::nat),
                                 char_of (12::nat), char_of (13::nat)]),
      time_Parse = exampleTimeParse,
      ParseDuration = exampleParseDuration,
      clock_since = (\<lambda>d. exampleSub 1136214305 d),
      time_Sub = exampleSub,
      DefaultTransport = (\<lambda>req. Inl (ErrTransport ''no network''))\<rparr>"

text \<open>Delegates for the examples: an origin that answers every request with a 200, one
  that answers with a 304 carrying a new \<^verbatim>\<open>ETag\<close>, one whose 304 names \<^verbatim>\<open>ETag\<close> in its
  \<^verbatim>\<open>Connection\<close> header, and one whose 200 says \<^verbatim>\<open>no-store\<close>.\<close>

definition respOrigin :: response where
  "respOrigin = \<lparr>StatusCode = 200, Status = ''200 OK'',
                 RHeader = [(''Content-Length'', [''5''])], Body = Bytes ''fresh''\<rparr>"

definition resp304 :: response where
  "resp304 = \<lparr>StatusCode = 304, Status = ''304 Not Modified'',
              RHeader = [(''Etag'', [''v2''])], Body = Bytes []\<rparr>"

definition resp304Connection :: response where
  "resp304Connection = \<lparr>StatusCode = 304, Status = ''304 Not Modified'',
              RHeader = [(''Connection'', [''etag'']), (''Etag'', [''v2''])], Body = Bytes []\<rparr>"


definition transportOrigin :: transport where
  "transportOrigin = \<lparr>Transport = Some (\<lambda>req. Inr respOrigin), MarkCachedResponses = True\<rparr>"

definition transport304 :: transport where
  "transport304 = \<lparr>Transport = Some (\<lambda>req. Inr resp304), MarkCachedResponses = True\<rparr>"

definition transport304Connection :: transport where
  "transport304Connection =
     \<lparr>Transport = Some (\<lambda>req. Inr resp304Connection), MarkCachedResponses = True\<rparr>"


text \<open>A state with one entry in the cache under \<^verbatim>\<open>http://example.com/a\<close>, the caller's
  header map at address 0, and no call made yet; and the caller's request.\<close>

definition stateWith :: "string \<Rightarrow> header \<Rightarrow> state" where
  "stateWith entry callerHeader =
     \<lparr>Cache = [''http://example.com/a'' \<mapsto> entry], heap = [callerHeader], calls = []\<rparr>"

definition requestOf :: "string \<Rightarrow> nat option request" where
  "requestOf m = \<lparr>Method = m, URL = ''http://example.com/a'', Header = Some 0\<rparr>"

text \<open>More delegates for the examples: no delegate set (the default transport, which has no
  network here); an origin whose 200 has two \<^verbatim>\<open>Cache-Control\<close> lines, the second of them
  \<^verbatim>\<open>no-store\<close>; and an origin whose 304 says \<^verbatim>\<open>no-store\<close> and names \<^verbatim>\<open>Cache-Control\<close> in
  its \<^verbatim>\<open>Connection\<close> header.\<close>

definition transportDefault :: transport where
  "transportDefault = \<lparr>Transport = None, MarkCachedResponses = True\<rparr>"





text \<open>A header map carries a directive when one of the values of its \<^verbatim>\<open>Cache-Control\<close> header
  has it, whichever line it stands on. (The program reads the first value only.)\<close>

definition carries :: "header \<Rightarrow> string \<Rightarrow> bool" where
  "carries h d = list_ex (\<lambda>v. directives v d \<noteq> None) (Header_index h ''Cache-Control'')"

section \<open>Properties of the string functions\<close>

lemma Split_not_Nil: "Split s c \<noteq> []"
  by (induction s) (auto split: list.splits)

lemma Split_unfold:
  "Split s c = takeWhile (\<lambda>x. x \<noteq> c) s #
     (if c \<in> set s then Split (tl (dropWhile (\<lambda>x. x \<noteq> c) s)) c else [])"
  by (induction s) (auto split: list.splits simp: Split_not_Nil)

lemma Split_no_sep: "p \<in> set (Split s c) \<Longrightarrow> c \<notin> set p"
  by (induction s arbitrary: p) (auto split: list.splits if_splits)

lemma set_Trim: "set (Trim s cs) \<subseteq> set s"
  unfolding Trim_def
  by (metis (no_types, lifting) set_dropWhileD set_rev subsetI)

lemma dropWhile_none: "\<forall>x \<in> set s. \<not> P x \<Longrightarrow> dropWhile P s = s"
  by (cases s) auto

lemma Trim_id:
  assumes "set s \<inter> set cs = {}"
  shows "Trim s cs = s"
proof -
  have a: "dropWhile (\<lambda>c. c \<in> set cs) s = s"
    using assms by (intro dropWhile_none) blast
  have b: "dropWhile (\<lambda>c. c \<in> set cs) (rev s) = rev s"
    using assms by (intro dropWhile_none) auto
  show ?thesis by (simp add: Trim_def a b)
qed

lemma set_tl_subset: "set (tl xs) \<subseteq> set xs"
  by (cases xs) auto

lemma set_value_subset: "set (takeWhile P (tl (dropWhile Q s))) \<subseteq> set s"
proof -
  have "set (takeWhile P (tl (dropWhile Q s))) \<subseteq> set (tl (dropWhile Q s))"
    by (auto dest: set_takeWhileD)
  also have "\<dots> \<subseteq> set (dropWhile Q s)"
    by (rule set_tl_subset)
  also have "\<dots> \<subseteq> set s"
    by (auto dest: set_dropWhileD)
  finally show ?thesis .
qed

lemma Split_eq_value:
  assumes "c \<in> set tok"
  shows "\<exists>rest. Split tok c =
     takeWhile (\<lambda>x. x \<noteq> c) tok #
     takeWhile (\<lambda>x. x \<noteq> c) (tl (dropWhile (\<lambda>x. x \<noteq> c) tok)) # rest"
proof -
  have "Split tok c = takeWhile (\<lambda>x. x \<noteq> c) tok # Split (tl (dropWhile (\<lambda>x. x \<noteq> c) tok)) c"
    using assms Split_unfold[of tok c] by simp
  moreover have "\<exists>rest. Split (tl (dropWhile (\<lambda>x. x \<noteq> c) tok)) c =
      takeWhile (\<lambda>x. x \<noteq> c) (tl (dropWhile (\<lambda>x. x \<noteq> c) tok)) # rest"
    using Split_unfold[of "tl (dropWhile (\<lambda>x. x \<noteq> c) tok)" c] by blast
  ultimately show ?thesis by auto
qed

section \<open>The directive parser\<close>

text \<open>A token with an equals sign always has the two fields the parser indexes, and they
  are the name and the value of \<open>directive_of\<close>: trimming commas off the value changes
  nothing, since the token was cut at the commas.\<close>

lemma parts_step_eq:
  assumes "CHR ''='' \<in> set part" "CHR '','' \<notin> set part"
  shows "\<exists>k v rest. Split part CHR ''='' = k # v # rest \<and>
     (Trim k '' '', Trim v '','') = directive_of part"
proof -
  let ?k = "takeWhile (\<lambda>c. c \<noteq> CHR ''='') part"
  let ?v = "takeWhile (\<lambda>c. c \<noteq> CHR ''='') (tl (dropWhile (\<lambda>c. c \<noteq> CHR ''='') part))"
  obtain rest where sp: "Split part CHR ''='' = ?k # ?v # rest"
    using Split_eq_value[OF assms(1)] by blast
  have "set ?v \<inter> set '','' = {}"
    using set_value_subset[of "\<lambda>c. c \<noteq> CHR ''=''" "\<lambda>c. c \<noteq> CHR ''=''" part] assms(2) by auto
  then have "Trim ?v '','' = ?v" by (rule Trim_id)
  then show ?thesis using sp assms(1) by (simp add: directive_of_def)
qed

lemma parts_eq:
  assumes "\<forall>p \<in> set parts. CHR '','' \<notin> set p"
  shows "parseCacheControl_parts parts cc =
    Some (cc ++ map_of (rev (map directive_of
       (filter (\<lambda>tok. tok \<noteq> []) (map (\<lambda>part. Trim part '' '') parts)))))"
  using assms
proof (induction parts arbitrary: cc)
  case Nil
  then show ?case by simp
next
  case (Cons part0 parts)
  let ?part = "Trim part0 '' ''"
  let ?rest = "map_of (rev (map directive_of
       (filter (\<lambda>tok. tok \<noteq> []) (map (\<lambda>part. Trim part '' '') parts))))"
  have nocomma: "CHR '','' \<notin> set ?part"
    using Cons.prems set_Trim[of part0 "'' ''"] by auto
  have IH: "\<And>cc. parseCacheControl_parts parts cc = Some (cc ++ ?rest)"
    using Cons by simp
  have rhs: "?part \<noteq> [] \<Longrightarrow> map_of (rev (map directive_of
       (filter (\<lambda>tok. tok \<noteq> []) (map (\<lambda>part. Trim part '' '') (part0 # parts))))) =
       map_of [directive_of ?part] ++ ?rest"
    by (simp add: map_of_append del: map_of.simps)
  show ?case
  proof (cases "?part = []")
    case True
    then show ?thesis using IH by simp
  next
    case ne: False
    show ?thesis
    proof (cases "CHR ''='' \<in> set ?part")
      case True
      obtain k v rest where sp: "Split ?part CHR ''='' = k # v # rest"
        and d: "directive_of ?part = (Trim k '' '', Trim v '','')"
        using parts_step_eq[OF True nocomma] by metis
      have "parseCacheControl_parts (part0 # parts) cc =
            parseCacheControl_parts parts (cc(Trim k '' '' \<mapsto> Trim v '',''))"
        using ne True sp by (simp add: ContainsRune_def)
      also have "\<dots> = Some (cc(Trim k '' '' \<mapsto> Trim v '','') ++ ?rest)"
        by (rule IH)
      also have "cc(Trim k '' '' \<mapsto> Trim v '','') ++ ?rest =
          cc ++ (map_of [(Trim k '' '', Trim v '','')] ++ ?rest)"
        by (simp add: map_add_def fun_eq_iff split: option.splits)
      finally show ?thesis by (simp only: rhs[OF ne] d)
    next
      case False
      have d: "directive_of ?part = (?part, [])"
        using False by (simp add: directive_of_def)
      have "parseCacheControl_parts (part0 # parts) cc =
            parseCacheControl_parts parts (cc(?part \<mapsto> []))"
        using ne False by (simp add: ContainsRune_def)
      also have "\<dots> = Some (cc(?part \<mapsto> []) ++ ?rest)"
        by (rule IH)
      also have "cc(?part \<mapsto> []) ++ ?rest = cc ++ (map_of [(?part, [])] ++ ?rest)"
        by (simp add: map_add_def fun_eq_iff split: option.splits)
      finally show ?thesis by (simp only: rhs[OF ne] d)
    qed
  qed
qed

text \<open>The parser returns \<open>directives\<close> of the \<^verbatim>\<open>Cache-Control\<close> value, for every header map.
  The theorems on \<open>getFreshness\<close> and \<open>RoundTrip\<close> below say that a header map \<open>h\<close> carries
  a directive \<open>d\<close> as \<open>directives (Header_Get h ''Cache-Control'') d \<noteq> None\<close>: by this lemma
  that is the test \<^verbatim>\<open>_, ok := parseCacheControl(h)[d]\<close> of the source.\<close>

lemma parseCacheControl_eq:
  "parseCacheControl h = Some (directives (Header_Get h ''Cache-Control''))"
proof -
  have "\<forall>p \<in> set (Split (Header_Get h ''Cache-Control'') CHR '',''). CHR '','' \<notin> set p"
    using Split_no_sep by blast
  then show ?thesis
    unfolding parseCacheControl_def directives_def by (simp add: parts_eq)
qed

text \<open>Claim C8, as amended. For every header map, \<open>parseCacheControl\<close> never panics and
  returns the directives of the \<^verbatim>\<open>Cache-Control\<close> value as \<open>directives\<close> words them: the
  value is split at the commas, the spaces around each token are trimmed and empty tokens
  are skipped; a token with an equals sign maps the text before its first equals sign
  (spaces trimmed, the case of the letters kept) to the text between its first and its
  second equals sign, taken as it stands; any other token maps to the empty value.\<close>

theorem parseCacheControl_directives:
  "parseCacheControl h = Some (directives (Header_Get h ''Cache-Control'')) \<and>
   parseCacheControl h \<noteq> None"
  using parseCacheControl_eq[of h] by simp

theorem parseCacheControl_directives_witness:
  "parseCacheControl [(''Cache-Control'', [''max-age=3600, no-cache''])] =
     Some (directives ''max-age=3600, no-cache'') \<and>
   parseCacheControl [(''Cache-Control'', [''max-age=3600, no-cache''])] \<noteq> None"
proof -
  have "Header_Get [(''Cache-Control'', [''max-age=3600, no-cache''])] ''Cache-Control'' =
        ''max-age=3600, no-cache''"
    by code_simp
  then show ?thesis
    using parseCacheControl_directives[of "[(''Cache-Control'', [''max-age=3600, no-cache''])]"]
    by simp
qed

text \<open>The claim as stated fails: the name of a directive is not case-normalized
  (\<^verbatim>\<open>No-Cache\<close> is stored under that name and \<^verbatim>\<open>no-cache\<close> is absent), and the value ends
  at the second equals sign and keeps its spaces.\<close>

theorem parseCacheControl_case_counterexample:
  "parseCacheControl [(''Cache-Control'', [''No-Cache, a= b=c''])] \<noteq> None \<and>
   the (parseCacheControl [(''Cache-Control'', [''No-Cache, a= b=c''])]) ''no-cache'' = None \<and>
   the (parseCacheControl [(''Cache-Control'', [''No-Cache, a= b=c''])]) ''No-Cache'' = Some [] \<and>
   the (parseCacheControl [(''Cache-Control'', [''No-Cache, a= b=c''])]) ''a'' = Some '' b''"
  by code_simp

section \<open>Freshness: the priority of the directives\<close>












section \<open>Ranges\<close>

text \<open>Claim C6, on the code. The cached entry under the key has the ten-byte body
  \<^verbatim>\<open>abcdefghij\<close>. \<^verbatim>\<open>Range: bytes=-3\<close> and \<^verbatim>\<open>Range: bytes=7-\<close> give \<^verbatim>\<open>hij\<close> and
  \<^verbatim>\<open>Range: bytes=9-2\<close> gives an error, as the claim says; \<^verbatim>\<open>Range: bytes=2-5\<close> gives
  \<^verbatim>\<open>cde\<close>, one byte short of the claim's \<^verbatim>\<open>cdef\<close>: the end of the range is taken as the
  exclusive bound of the slice.\<close>

theorem CachedResponse_range_slices:
  "CachedResponse exampleEnv [''http://example.com/a'' \<mapsto> storedPlain]
     \<lparr>Method = ''GET'', URL = ''http://example.com/a'', Header = [(''Range'', [''bytes=2-5''])]\<rparr>
     = Ok (Some (respPlain\<lparr>Body := Bytes ''cde''\<rparr>)) \<and>
   CachedResponse exampleEnv [''http://example.com/a'' \<mapsto> storedPlain]
     \<lparr>Method = ''GET'', URL = ''http://example.com/a'', Header = [(''Range'', [''bytes=-3''])]\<rparr>
     = Ok (Some (respPlain\<lparr>Body := Bytes ''hij''\<rparr>)) \<and>
   CachedResponse exampleEnv [''http://example.com/a'' \<mapsto> storedPlain]
     \<lparr>Method = ''GET'', URL = ''http://example.com/a'', Header = [(''Range'', [''bytes=7-''])]\<rparr>
     = Ok (Some (respPlain\<lparr>Body := Bytes ''hij''\<rparr>)) \<and>
   CachedResponse exampleEnv [''http://example.com/a'' \<mapsto> storedPlain]
     \<lparr>Method = ''GET'', URL = ''http://example.com/a'', Header = [(''Range'', [''bytes=9-2''])]\<rparr>
     = Err ErrNonValidRanges"
  by code_simp

text \<open>Claim C7, on the code. In the form \<^verbatim>\<open>START-END\<close> the errors of \<^verbatim>\<open>strconv.ParseInt\<close> are
  dropped: for \<^verbatim>\<open>Range: bytes=x-5\<close> the start does not parse, is taken as 0, and the first
  five bytes are served with no error. For \<^verbatim>\<open>Range: bytes=-x\<close> and \<^verbatim>\<open>Range: bytes=x-\<close> the
  error is returned, as the claim says.\<close>

theorem CachedResponse_unparsed_start:
  "CachedResponse exampleEnv [''http://example.com/a'' \<mapsto> storedPlain]
     \<lparr>Method = ''GET'', URL = ''http://example.com/a'', Header = [(''Range'', [''bytes=x-5''])]\<rparr>
     = Ok (Some (respPlain\<lparr>Body := Bytes ''abcde''\<rparr>)) \<and>
   CachedResponse exampleEnv [''http://example.com/a'' \<mapsto> storedPlain]
     \<lparr>Method = ''GET'', URL = ''http://example.com/a'', Header = [(''Range'', [''bytes=-x''])]\<rparr>
     = Err ErrParseInt \<and>
   CachedResponse exampleEnv [''http://example.com/a'' \<mapsto> storedPlain]
     \<lparr>Method = ''GET'', URL = ''http://example.com/a'', Header = [(''Range'', [''bytes=x-''])]\<rparr>
     = Err ErrParseInt"
  by code_simp

section \<open>The clone of the request\<close>

lemma map_of_copy_loop:
  "map_of (foldr (\<lambda>(k, s) m. AList.update k s m) h []) = map_of h"
  by (induction h) (auto simp: update_conv')

lemma cloneRequest_eq:
  "cloneRequest hp r =
     (hp @ [Header (cloned hp r)], r\<lparr>Header := Some (length hp)\<rparr>)"
  by (simp add: cloneRequest_def cloned_def load_def deref_def Let_def)

lemma load_clone:
  "load (hp @ [Header (cloned hp r)]) (r\<lparr>Header := Some (length hp)\<rparr>) = cloned hp r"
  by (simp add: cloneRequest_def cloned_def load_def deref_def Let_def)

lemma deref_clone:
  "deref (hp @ [h]) (Some (length hp)) = h"
  by (simp add: deref_def)

lemma cloned_Method: "Method (cloned hp r) = Method r"
  by (simp add: cloneRequest_def cloned_def load_def Let_def)

lemma cloned_URL: "URL (cloned hp r) = URL r"
  by (simp add: cloneRequest_def cloned_def load_def Let_def)

lemma cloned_Header: "map_of (Header (cloned hp r)) = map_of (deref hp (Header r))"
  by (simp add: cloneRequest_def cloned_def load_def Let_def deref_def map_of_copy_loop)

lemma Header_Get_map_of:
  "map_of h = map_of h' \<Longrightarrow> Header_Get h key = Header_Get h' key"
  by (simp add: Header_Get_def Header_index_def)

lemma Header_Get_cloned:
  "Header_Get (Header (cloned hp r)) key = Header_Get (deref hp (Header r)) key"
  by (rule Header_Get_map_of) (rule cloned_Header)

section \<open>Requests that are neither GET nor HEAD\<close>

text \<open>Claim C5. For a request whose method is neither GET nor HEAD, \<open>RoundTrip\<close> returns
  what the delegate (the \<open>Transport\<close> of the transport, the default transport when none is
  set) returns for the clone of the request, an error as the error and a response as the
  response; the delegate is called exactly once, with that clone; and the cache afterwards
  is the cache before with the entry under the URL of the request, which is its key,
  deleted: nothing is written. The clone has the method, the URL and the header entries of
  the caller's request.\<close>

theorem RoundTrip_other_methods:
  assumes "Method r \<noteq> ''GET''" and "Method r \<noteq> ''HEAD''"
  shows "fst (RoundTrip env t st r) =
           (case (case Transport t of None \<Rightarrow> DefaultTransport env | Some f \<Rightarrow> f)
                   (cloned (heap st) r) of
              Inl e \<Rightarrow> Err e | Inr resp \<Rightarrow> Ok resp) \<and>
         Cache (snd (RoundTrip env t st r)) = (Cache st)(URL r := None) \<and>
         cacheKey r = URL r \<and>
         calls (snd (RoundTrip env t st r)) = calls st @ [cloned (heap st) r] \<and>
         Method (cloned (heap st) r) = Method r \<and>
         URL (cloned (heap st) r) = URL r \<and>
         map_of (Header (cloned (heap st) r)) = map_of (deref (heap st) (Header r))"
  using assms
  by (simp add: RoundTrip_def roundTripper_def cloneRequest_eq load_clone cacheKey_def Let_def
        cloned_Method cloned_URL cloned_Header split: sum.split)

text \<open>A POST with an entry under its URL and another entry under another URL: with an origin
  as the delegate its response comes back, with no delegate set the error of the default
  transport comes back; in both cases the entry under the URL is gone, the other entry
  stays, and the delegate was given the request.\<close>

theorem RoundTrip_other_methods_witness:
  "Method (requestOf ''POST'') \<noteq> ''GET'' \<and> Method (requestOf ''POST'') \<noteq> ''HEAD'' \<and>
   fst (RoundTrip exampleEnv transportOrigin
     \<lparr>Cache = [''http://example.com/a'' \<mapsto> storedFresh, ''http://example.com/b'' \<mapsto> storedPlain],
      heap = [[(''Accept'', [''text/html''])]], calls = []\<rparr> (requestOf ''POST'')) = Ok respOrigin \<and>
   fst (RoundTrip exampleEnv transportDefault
     \<lparr>Cache = [''http://example.com/a'' \<mapsto> storedFresh, ''http://example.com/b'' \<mapsto> storedPlain],
      heap = [[(''Accept'', [''text/html''])]], calls = []\<rparr> (requestOf ''POST'')) =
     Err (ErrTransport ''no network'') \<and>
   Cache (snd (RoundTrip exampleEnv transportDefault
     \<lparr>Cache = [''http://example.com/a'' \<mapsto> storedFresh, ''http://example.com/b'' \<mapsto> storedPlain],
      heap = [[(''Accept'', [''text/html''])]], calls = []\<rparr> (requestOf ''POST'')))
     ''http://example.com/a'' = None \<and>
   Cache (snd (RoundTrip exampleEnv transportDefault
     \<lparr>Cache = [''http://example.com/a'' \<mapsto> storedFresh, ''http://example.com/b'' \<mapsto> storedPlain],
      heap = [[(''Accept'', [''text/html''])]], calls = []\<rparr> (requestOf ''POST'')))
     ''http://example.com/b'' = Some storedPlain \<and>
   calls (snd (RoundTrip exampleEnv transportDefault
     \<lparr>Cache = [''http://example.com/a'' \<mapsto> storedFresh, ''http://example.com/b'' \<mapsto> storedPlain],
      heap = [[(''Accept'', [''text/html''])]], calls = []\<rparr> (requestOf ''POST''))) =
     [\<lparr>Method = ''POST'', URL = ''http://example.com/a'', Header = [(''Accept'', [''text/html''])]\<rparr>]"
proof -
  let ?st = "\<lparr>Cache = [''http://example.com/a'' \<mapsto> storedFresh, ''http://example.com/b'' \<mapsto> storedPlain],
      heap = [[(''Accept'', [''text/html''])]], calls = []\<rparr>"
  have m: "Method (requestOf ''POST'') \<noteq> ''GET''" "Method (requestOf ''POST'') \<noteq> ''HEAD''"
    by (simp_all add: requestOf_def)
  note w1 = RoundTrip_other_methods[OF m, of exampleEnv transportOrigin ?st]
  note w2 = RoundTrip_other_methods[OF m, of exampleEnv transportDefault ?st]
  have ev: "fst (RoundTrip exampleEnv transportOrigin ?st (requestOf ''POST'')) = Ok respOrigin \<and>
   fst (RoundTrip exampleEnv transportDefault ?st (requestOf ''POST'')) =
     Err (ErrTransport ''no network'') \<and>
   Cache (snd (RoundTrip exampleEnv transportDefault ?st (requestOf ''POST'')))
     ''http://example.com/a'' = None \<and>
   Cache (snd (RoundTrip exampleEnv transportDefault ?st (requestOf ''POST'')))
     ''http://example.com/b'' = Some storedPlain \<and>
   calls (snd (RoundTrip exampleEnv transportDefault ?st (requestOf ''POST''))) =
     [\<lparr>Method = ''POST'', URL = ''http://example.com/a'', Header = [(''Accept'', [''text/html''])]\<rparr>]"
    by code_simp
  from w1 w2 m ev show ?thesis by blast
qed

section \<open>The caller's request is left as it was\<close>

lemma storeResponse_heap: "heap (snd (storeResponse env st req resp)) = heap st"
  by (simp add: storeResponse_def Let_def split: option.split)

lemma revalidate_heap: "heap (snd (revalidate env rt st req cachedResp)) = heap st"
  by (simp add: revalidate_def Let_def storeResponse_heap split: sum.split)

lemma fetchMiss_heap: "heap (snd (fetchMiss env rt st req)) = heap st"
  by (simp add: fetchMiss_def Let_def storeResponse_heap split: sum.split option.split)

lemma Header_Set_at_prefix:
  "Header_Set_at hp (Some a) key v = Some hp' \<Longrightarrow> take a hp' = take a hp"
  by (auto simp: Header_Set_at_def split: if_splits)

lemma addValidators_prefix:
  assumes "addValidators cachedHeader hp (Some a) = Some hp'"
  shows "take a hp' = take a hp"
  using assms
  by (auto simp: addValidators_def Let_def split: if_splits option.splits
           dest!: Header_Set_at_prefix)

lemma RoundTrip_heap_prefix:
  "take (length (heap st)) (heap (snd (RoundTrip env t st r))) = heap st"
proof -
  let ?hp1 = "heap st @ [Header (cloned (heap st) r)]"
  have p: "\<And>hp2 cachedHeader. addValidators cachedHeader ?hp1 (Some (length (heap st))) = Some hp2 \<Longrightarrow>
      take (length (heap st)) hp2 = heap st"
    by (drule addValidators_prefix) simp
  show ?thesis
    by (simp add: RoundTrip_def cloneRequest_eq Let_def revalidate_heap fetchMiss_heap p
          split: sum.split result.split option.split)
qed

text \<open>Claim C10. \<open>RoundTrip\<close> works on a clone whose header map is a new map, at an address
  that did not exist before the call: every header map that existed before the call has
  the contents it had, whatever path the call takes (validators are written into the new
  map only), and the caller's request, whose reference is to one of those maps or nil,
  reads after the call as it read before. The delegate and the library functions are
  functions of the request they are given: they do not write into it.\<close>

theorem RoundTrip_keeps_caller_request:
  "take (length (heap st)) (heap (snd (RoundTrip env t st r))) = heap st \<and>
   Header (snd (cloneRequest (heap st) r)) = Some (length (heap st)) \<and>
   ((case Header r of None \<Rightarrow> True | Some a \<Rightarrow> a < length (heap st)) \<longrightarrow>
      load (heap (snd (RoundTrip env t st r))) r = load (heap st) r)"
proof (intro conjI impI)
  show p: "take (length (heap st)) (heap (snd (RoundTrip env t st r))) = heap st"
    by (rule RoundTrip_heap_prefix)
  show "Header (snd (cloneRequest (heap st) r)) = Some (length (heap st))"
    by (simp add: cloneRequest_eq)
  assume wf: "case Header r of None \<Rightarrow> True | Some a \<Rightarrow> a < length (heap st)"
  show "load (heap (snd (RoundTrip env t st r))) r = load (heap st) r"
  proof (cases "Header r")
    case None
    then show ?thesis by (simp add: load_def deref_def)
  next
    case (Some a)
    with wf have a: "a < length (heap st)" by simp
    have "heap (snd (RoundTrip env t st r)) ! a =
          take (length (heap st)) (heap (snd (RoundTrip env t st r))) ! a"
      using a by simp
    moreover have "length (heap st) \<le> length (heap (snd (RoundTrip env t st r)))"
      using p by (metis length_take min.cobounded1 min.commute)
    ultimately show ?thesis
      using Some a p by (simp add: load_def deref_def)
  qed
qed

text \<open>A stale entry is revalidated: the validators are in the map of the clone, at the new
  address 1, and in the request the delegate was given; the caller's map at address 0 and
  the caller's request read as before.\<close>

theorem RoundTrip_keeps_caller_request_witness:
  "(case Header (requestOf ''GET'') of None \<Rightarrow> True
    | Some a \<Rightarrow> a < length (heap (stateWith storedStale [(''Accept'', [''text/html''])]))) \<and>
   heap (snd (RoundTrip exampleEnv transportOrigin
                (stateWith storedStale [(''Accept'', [''text/html''])]) (requestOf ''GET''))) =
     [[(''Accept'', [''text/html''])],
      [(''Accept'', [''text/html'']), (''If-None-Match'', [''v1'']),
       (''If-Modified-Since'', [''Mon, 02 Jan 2006 15:00:00 GMT''])]] \<and>
   load (heap (snd (RoundTrip exampleEnv transportOrigin
                (stateWith storedStale [(''Accept'', [''text/html''])]) (requestOf ''GET''))))
        (requestOf ''GET'') =
     \<lparr>Method = ''GET'', URL = ''http://example.com/a'', Header = [(''Accept'', [''text/html''])]\<rparr>"
proof -
  have wf: "case Header (requestOf ''GET'') of None \<Rightarrow> True
    | Some a \<Rightarrow> a < length (heap (stateWith storedStale [(''Accept'', [''text/html''])]))"
    by code_simp
  note w = RoundTrip_keeps_caller_request[of "stateWith storedStale [(''Accept'', [''text/html''])]"
             exampleEnv transportOrigin "requestOf ''GET''"]
  have ev: "heap (snd (RoundTrip exampleEnv transportOrigin
                (stateWith storedStale [(''Accept'', [''text/html''])]) (requestOf ''GET''))) =
     [[(''Accept'', [''text/html''])],
      [(''Accept'', [''text/html'']), (''If-None-Match'', [''v1'']),
       (''If-Modified-Since'', [''Mon, 02 Jan 2006 15:00:00 GMT''])]]"
    by code_simp
  have l: "load (heap (stateWith storedStale [(''Accept'', [''text/html''])])) (requestOf ''GET'') =
     \<lparr>Method = ''GET'', URL = ''http://example.com/a'', Header = [(''Accept'', [''text/html''])]\<rparr>"
    by code_simp
  from w wf have "load (heap (snd (RoundTrip exampleEnv transportOrigin
                (stateWith storedStale [(''Accept'', [''text/html''])]) (requestOf ''GET''))))
        (requestOf ''GET'') =
       load (heap (stateWith storedStale [(''Accept'', [''text/html''])])) (requestOf ''GET'')"
    by blast
  with wf ev l show ?thesis by simp
qed

section \<open>only-if-cached\<close>

lemma setVaried_fields:
  "StatusCode (setVaried env h resp) = StatusCode resp"
  "Status (setVaried env h resp) = Status resp"
  "Body (setVaried env h resp) = Body resp"
  by (simp_all add: setVaried_def)

lemma storeResponse_calls: "calls (snd (storeResponse env st req resp)) = calls st"
  by (simp add: storeResponse_def Let_def split: option.split)

lemma storeResponse_returns:
  "fst (storeResponse env st req resp) = Ok resp \<or>
   fst (storeResponse env st req resp) = Ok (setVaried env (deref (heap st) (Header req)) resp)"
  by (simp add: storeResponse_def parseCacheControl_eq Let_def split: option.split)

lemma CachedResponse_miss:
  assumes "c (cacheKey req) = None \<or>
           (\<exists>v. c (cacheKey req) = Some v \<and> ReadResponse env v req = None)"
  shows "CachedResponse env c req = Ok None \<or> CachedResponse env c req = Err ErrLoadingResponse"
  using assms by (auto simp: CachedResponse_def)

text \<open>The miss path that does what \<^verbatim>\<open>only-if-cached\<close> asks. For a GET or HEAD request whose
  first \<^verbatim>\<open>Cache-Control\<close> value has \<^verbatim>\<open>only-if-cached\<close>, when nothing is stored under its key
  or the stored entry does not parse as a response, \<open>RoundTrip\<close> returns the response that
  \<open>newGatewayTimeoutResponse\<close> builds from the literal \<^verbatim>\<open>HTTP/1.1 504 Gateway Timeout\<close> (its
  status code, status and body; the header may gain \<^verbatim>\<open>X-Varied-\<close> entries), and the delegate
  is not called.\<close>

lemma RoundTrip_only_if_cached_miss:
  assumes m: "Method r = ''GET'' \<or> Method r = ''HEAD''"
    and oic: "directives (Header_Get (deref (heap st) (Header r)) ''Cache-Control'')
                ''only-if-cached'' \<noteq> None"
    and miss: "Cache st (cacheKey r) = None \<or>
               (\<exists>v. Cache st (cacheKey r) = Some v \<and>
                    ReadResponse env v (cloned (heap st) r) = None)"
    and g: "newGatewayTimeoutResponse env (cloned (heap st) r) = Some g"
  shows "\<exists>resp. fst (RoundTrip env t st r) = Ok resp \<and>
           StatusCode resp = StatusCode g \<and> Status resp = Status g \<and> Body resp = Body g \<and>
           calls (snd (RoundTrip env t st r)) = calls st"
proof -
  let ?hp1 = "heap st @ [Header (cloned (heap st) r)]"
  let ?req = "r\<lparr>Header := Some (length (heap st))\<rparr>"
  let ?st1 = "st\<lparr>heap := ?hp1\<rparr>"
  have k: "cacheKey (cloned (heap st) r) = cacheKey r"
    by (simp add: cacheKey_def cloned_URL)
  have c: "CachedResponse env (Cache st) (cloned (heap st) r) = Ok None \<or>
           CachedResponse env (Cache st) (cloned (heap st) r) = Err ErrLoadingResponse"
    using miss by (intro CachedResponse_miss) (simp add: k)
  have rt: "RoundTrip env t st r = fetchMiss env (roundTripper env t) ?st1 ?req"
    using m c by (auto simp: RoundTrip_def cloneRequest_eq load_clone Let_def)
  have fm: "fetchMiss env (roundTripper env t) ?st1 ?req = storeResponse env ?st1 ?req g"
    using oic g
    by (simp add: fetchMiss_def parseCacheControl_eq deref_clone Header_Get_cloned load_clone)
  show ?thesis
    using storeResponse_returns[of env ?st1 ?req g]
    by (auto simp: rt fm storeResponse_calls setVaried_fields)
qed

lemma RoundTrip_only_if_cached_miss_example:
  "(Method (requestOf ''GET'') = ''GET'' \<or> Method (requestOf ''GET'') = ''HEAD'') \<and>
   newGatewayTimeoutResponse exampleEnv
     (cloned [[(''Cache-Control'', [''only-if-cached''])]] (requestOf ''GET'')) =
     Some respGatewayTimeout \<and>
   fst (RoundTrip exampleEnv transportOrigin
          \<lparr>Cache = Map.empty, heap = [[(''Cache-Control'', [''only-if-cached''])]], calls = []\<rparr>
          (requestOf ''GET'')) = Ok respGatewayTimeout \<and>
   calls (snd (RoundTrip exampleEnv transportOrigin
          \<lparr>Cache = Map.empty, heap = [[(''Cache-Control'', [''only-if-cached''])]], calls = []\<rparr>
          (requestOf ''GET''))) = []"
proof -
  let ?st = "\<lparr>Cache = Map.empty, heap = [[(''Cache-Control'', [''only-if-cached''])]], calls = []\<rparr>"
  have m: "Method (requestOf ''GET'') = ''GET'' \<or> Method (requestOf ''GET'') = ''HEAD''"
    by (simp add: requestOf_def)
  have oic: "directives (Header_Get (deref (heap ?st) (Header (requestOf ''GET''))) ''Cache-Control'')
                ''only-if-cached'' \<noteq> None"
    by code_simp
  have miss: "Cache ?st (cacheKey (requestOf ''GET'')) = None \<or>
               (\<exists>v. Cache ?st (cacheKey (requestOf ''GET'')) = Some v \<and>
                    ReadResponse exampleEnv v (cloned (heap ?st) (requestOf ''GET'')) = None)"
    by simp
  have g: "newGatewayTimeoutResponse exampleEnv (cloned (heap ?st) (requestOf ''GET'')) =
             Some respGatewayTimeout"
    by code_simp
  note w = RoundTrip_only_if_cached_miss[OF m oic miss g, of transportOrigin]
  have ev: "newGatewayTimeoutResponse exampleEnv
     (cloned [[(''Cache-Control'', [''only-if-cached''])]] (requestOf ''GET'')) =
     Some respGatewayTimeout \<and>
   fst (RoundTrip exampleEnv transportOrigin ?st (requestOf ''GET'')) = Ok respGatewayTimeout \<and>
   calls (snd (RoundTrip exampleEnv transportOrigin ?st (requestOf ''GET''))) = []"
    by code_simp
  from w m ev show ?thesis by blast
qed

text \<open>Claim C4, on the code. The request is a GET with \<^verbatim>\<open>Cache-Control: only-if-cached\<close>.
  With nothing stored under its key, and with a stored entry that does not parse as a
  response, \<open>RoundTrip\<close> returns the synthesized 504 and the delegate is not called, as the
  claim says. With a stored entry whose \<^verbatim>\<open>Vary: Accept-Language\<close> was recorded for \<^verbatim>\<open>en\<close> and
  a request that sends \<^verbatim>\<open>Accept-Language: fr\<close>, the entry does not match, and the delegate is
  called and its response returned: \<^verbatim>\<open>only-if-cached\<close> is tested only in the branch taken
  when no cached response was read, not in the branch taken when one was read and did not
  match.\<close>

theorem RoundTrip_only_if_cached_vary:
  "fst (RoundTrip exampleEnv transportOrigin
          \<lparr>Cache = Map.empty, heap = [[(''Cache-Control'', [''only-if-cached''])]], calls = []\<rparr>
          (requestOf ''GET'')) = Ok respGatewayTimeout \<and>
   calls (snd (RoundTrip exampleEnv transportOrigin
          \<lparr>Cache = Map.empty, heap = [[(''Cache-Control'', [''only-if-cached''])]], calls = []\<rparr>
          (requestOf ''GET''))) = [] \<and>
   exampleReadResponse ''not a response''
     \<lparr>Method = ''GET'', URL = ''http://example.com/a'',
      Header = [(''Cache-Control'', [''only-if-cached''])]\<rparr> = None \<and>
   fst (RoundTrip exampleEnv transportOrigin
          (stateWith ''not a response'' [(''Cache-Control'', [''only-if-cached''])])
          (requestOf ''GET'')) = Ok respGatewayTimeout \<and>
   calls (snd (RoundTrip exampleEnv transportOrigin
          (stateWith ''not a response'' [(''Cache-Control'', [''only-if-cached''])])
          (requestOf ''GET''))) = [] \<and>
   varyMatches exampleEnv respVary
     \<lparr>Method = ''GET'', URL = ''http://example.com/a'',
      Header = [(''Cache-Control'', [''only-if-cached'']), (''Accept-Language'', [''fr''])]\<rparr> = False \<and>
   fst (RoundTrip exampleEnv transportOrigin
          (stateWith storedVary
             [(''Cache-Control'', [''only-if-cached'']), (''Accept-Language'', [''fr''])])
          (requestOf ''GET'')) = Ok respOrigin \<and>
   calls (snd (RoundTrip exampleEnv transportOrigin
          (stateWith storedVary
             [(''Cache-Control'', [''only-if-cached'']), (''Accept-Language'', [''fr''])])
          (requestOf ''GET''))) =
     [\<lparr>Method = ''GET'', URL = ''http://example.com/a'',
       Header = [(''Accept-Language'', [''fr'']), (''Cache-Control'', [''only-if-cached''])]\<rparr>]"
  by code_simp

section \<open>Validators\<close>

text \<open>Claim C9, on the code. The entry is stale (\<^verbatim>\<open>max-age=30\<close>, 60 seconds old) and has
  \<^verbatim>\<open>Etag: v1\<close> and a \<^verbatim>\<open>Last-Modified\<close>. The guard of each validator reads the request's
  \<^verbatim>\<open>etag\<close> and \<^verbatim>\<open>last-modified\<close> headers, not \<^verbatim>\<open>If-None-Match\<close> and \<^verbatim>\<open>If-Modified-Since\<close>:
  a caller's \<^verbatim>\<open>If-None-Match: caller\<close> is overwritten with the cached \<^verbatim>\<open>v1\<close> in the request
  the delegate gets, and a caller's \<^verbatim>\<open>Etag: x\<close> keeps \<^verbatim>\<open>If-None-Match\<close> from being set at
  all. With neither header in the request both validators are set, as the claim says.\<close>

theorem RoundTrip_validators_guard:
  "getFreshness exampleEnv (RHeader respStale) [(''If-None-Match'', [''caller''])] = Some stale \<and>
   calls (snd (RoundTrip exampleEnv transportOrigin
                 (stateWith storedStale [(''If-None-Match'', [''caller''])]) (requestOf ''GET''))) =
     [\<lparr>Method = ''GET'', URL = ''http://example.com/a'',
       Header = [(''If-None-Match'', [''v1'']),
                 (''If-Modified-Since'', [''Mon, 02 Jan 2006 15:00:00 GMT''])]\<rparr>] \<and>
   calls (snd (RoundTrip exampleEnv transportOrigin
                 (stateWith storedStale [(''Etag'', [''x''])]) (requestOf ''GET''))) =
     [\<lparr>Method = ''GET'', URL = ''http://example.com/a'',
       Header = [(''Etag'', [''x'']),
                 (''If-Modified-Since'', [''Mon, 02 Jan 2006 15:00:00 GMT''])]\<rparr>] \<and>
   calls (snd (RoundTrip exampleEnv transportOrigin
                 (stateWith storedStale []) (requestOf ''GET''))) =
     [\<lparr>Method = ''GET'', URL = ''http://example.com/a'',
       Header = [(''If-None-Match'', [''v1'']),
                 (''If-Modified-Since'', [''Mon, 02 Jan 2006 15:00:00 GMT''])]\<rparr>]"
  by code_simp

section \<open>Header writes\<close>

lemma Header_Get_Header_Set:
  "Header_Get (Header_Set h key v) key' =
     (if CanonicalHeaderKey key = CanonicalHeaderKey key' then v else Header_Get h key')"
  by (simp add: Header_Get_def Header_Set_def Header_index_def update_conv')

lemma canonical_constants:
  "CanonicalHeaderKey ''Cache-Control'' = ''Cache-Control''"
  "CanonicalHeaderKey ''if-none-match'' = ''If-None-Match''"
  "CanonicalHeaderKey ''if-modified-since'' = ''If-Modified-Since''"
  "CanonicalHeaderKey ''etag'' = ''Etag''"
  by code_simp+

lemma canonicalMIMEHeaderKey_XVaried:
  "canonicalMIMEHeaderKey True (''X-Varied-'' @ k) = ''X-Varied-'' @ canonicalMIMEHeaderKey True k"
  by (simp add: isLower_def isUpper_def Let_def)

lemma CanonicalHeaderKey_XVaried:
  "\<exists>k'. CanonicalHeaderKey (''X-Varied-'' @ k) = ''X-Varied-'' @ k'"
proof (cases "list_all validHeaderFieldByte (''X-Varied-'' @ k)")
  case True
  then have "CanonicalHeaderKey (''X-Varied-'' @ k) = ''X-Varied-'' @ canonicalMIMEHeaderKey True k"
    by (simp only: CanonicalHeaderKey_def canonicalMIMEHeaderKey_XVaried if_True)
  then show ?thesis by blast
next
  case False
  then have "CanonicalHeaderKey (''X-Varied-'' @ k) = ''X-Varied-'' @ k"
    by (simp only: CanonicalHeaderKey_def if_False)
  then show ?thesis by blast
qed


lemma map_of_Header_Set_XVaried:
  assumes "\<not> HasPrefix key ''X-Varied-''"
  shows "map_of (Header_Set h (''X-Varied-'' @ k) v) key = map_of h key"
proof -
  obtain k' where k': "CanonicalHeaderKey (''X-Varied-'' @ k) = ''X-Varied-'' @ k'"
    using CanonicalHeaderKey_XVaried by blast
  have "''X-Varied-'' @ k' \<noteq> key"
    using assms by (auto simp: HasPrefix_def)
  then show ?thesis
    by (simp add: Header_Set_def update_conv' k' del: append.simps)
qed

lemma setVaried_loop_map_of:
  assumes "\<not> HasPrefix key ''X-Varied-''"
  shows "map_of (foldl (\<lambda>h varyKey0.
                let varyKey = CanonicalHeaderKey varyKey0;
                    fakeHeader = ''X-Varied-'' @ varyKey;
                    reqValue = Header_Get reqHeader varyKey
                in if reqValue \<noteq> [] then Header_Set h fakeHeader reqValue else h) h ks) key =
         map_of h key"
  by (induction ks arbitrary: h)
     (simp_all add: Let_def map_of_Header_Set_XVaried[OF assms] del: append.simps)

lemma setVaried_map_of:
  "\<not> HasPrefix key ''X-Varied-'' \<Longrightarrow>
   map_of (RHeader (setVaried env reqHeader resp)) key = map_of (RHeader resp) key"
  by (simp add: setVaried_def setVaried_loop_map_of[unfolded Let_def] Let_def del: append.simps)



section \<open>no-store\<close>






lemma Header_Set_at_Get:
  assumes "Header_Set_at hp (Some a) key v = Some hp'"
    and "CanonicalHeaderKey key \<noteq> CanonicalHeaderKey key'"
  shows "Header_Get (deref hp' (Some a)) key' = Header_Get (deref hp (Some a)) key'"
  using assms
  by (auto simp: Header_Set_at_def deref_def Header_Get_Header_Set split: if_splits)

lemma addValidators_Get:
  assumes "addValidators cachedHeader hp (Some a) = Some hp'"
    and "CanonicalHeaderKey key' \<noteq> ''If-None-Match''"
    and "CanonicalHeaderKey key' \<noteq> ''If-Modified-Since''"
  shows "Header_Get (deref hp' (Some a)) key' = Header_Get (deref hp (Some a)) key'"
proof -
  let ?etag = "Header_Get cachedHeader ''etag''"
  let ?lm = "Header_Get cachedHeader ''last-modified''"
  obtain hp1 where 1: "(if ?etag \<noteq> [] \<and> Header_Get (deref hp (Some a)) ''etag'' = []
            then Header_Set_at hp (Some a) ''if-none-match'' ?etag else Some hp) = Some hp1"
    and 2: "(if ?lm \<noteq> [] \<and> Header_Get (deref hp1 (Some a)) ''last-modified'' = []
          then Header_Set_at hp1 (Some a) ''if-modified-since'' ?lm else Some hp1) = Some hp'"
    using assms(1) by (auto simp: addValidators_def Let_def split: option.splits)
  have a: "Header_Get (deref hp1 (Some a)) key' = Header_Get (deref hp (Some a)) key'"
    using 1 assms(2) Header_Set_at_Get[of hp a "''if-none-match''" ?etag hp1 key']
    by (auto simp: canonical_constants split: if_splits)
  have b: "Header_Get (deref hp' (Some a)) key' = Header_Get (deref hp1 (Some a)) key'"
    using 2 assms(3) Header_Set_at_Get[of hp1 a "''if-modified-since''" ?lm hp' key']
    by (auto simp: canonical_constants split: if_splits)
  show ?thesis using a b by simp
qed

text \<open>The paths of \<open>RoundTrip\<close> when a cached response is found: a panic, the cached
  response returned as fresh, or the fetch, with a request whose headers other than the
  two validators are the caller's.\<close>

lemma RoundTrip_hit:
  assumes m: "Method r = ''GET'' \<or> Method r = ''HEAD''"
    and c: "CachedResponse env (Cache st) (cloned (heap st) r) = Ok (Some cachedResp0)"
  shows "RoundTrip env t st r = (Panic, st\<lparr>heap := heap st @ [Header (cloned (heap st) r)]\<rparr>) \<or>
    (RoundTrip env t st r =
       (Ok (markCached t cachedResp0), st\<lparr>heap := heap st @ [Header (cloned (heap st) r)]\<rparr>) \<and>
     getFreshness env (RHeader (markCached t cachedResp0)) (Header (cloned (heap st) r)) = Some fresh) \<or>
    (\<exists>hp2. RoundTrip env t st r =
        revalidate env (roundTripper env t) (st\<lparr>heap := hp2\<rparr>)
          (r\<lparr>Header := Some (length (heap st))\<rparr>) (markCached t cachedResp0) \<and>
      (\<forall>key. CanonicalHeaderKey key \<noteq> ''If-None-Match'' \<and>
             CanonicalHeaderKey key \<noteq> ''If-Modified-Since'' \<longrightarrow>
         Header_Get (deref hp2 (Some (length (heap st)))) key =
         Header_Get (deref (heap st) (Header r)) key))"
proof -
  let ?hp1 = "heap st @ [Header (cloned (heap st) r)]"
  let ?req = "r\<lparr>Header := Some (length (heap st))\<rparr>"
  let ?c = "markCached t cachedResp0"
  have same: "\<forall>key. Header_Get (deref ?hp1 (Some (length (heap st)))) key =
         Header_Get (deref (heap st) (Header r)) key"
    by (simp add: deref_clone Header_Get_cloned)
  show ?thesis
  proof (cases "varyMatches env ?c (cloned (heap st) r)")
    case False
    then have "RoundTrip env t st r = revalidate env (roundTripper env t) (st\<lparr>heap := ?hp1\<rparr>) ?req ?c"
      using m c by (auto simp: RoundTrip_def cloneRequest_eq load_clone Let_def)
    then show ?thesis using same by blast
  next
    case vary: True
    show ?thesis
    proof (cases "getFreshness env (RHeader ?c) (Header (cloned (heap st) r))")
      case None
      then show ?thesis
        using m c vary by (auto simp: RoundTrip_def cloneRequest_eq load_clone deref_clone Let_def)
    next
      case (Some f)
      show ?thesis
      proof (cases f)
        case fresh
        then show ?thesis
          using m c vary Some
          by (auto simp: RoundTrip_def cloneRequest_eq load_clone deref_clone Let_def)
      next
        case transparent
        then have "RoundTrip env t st r =
            revalidate env (roundTripper env t) (st\<lparr>heap := ?hp1\<rparr>) ?req ?c"
          using m c vary Some
          by (auto simp: RoundTrip_def cloneRequest_eq load_clone deref_clone Let_def)
        then show ?thesis using same by blast
      next
        case stale
        show ?thesis
        proof (cases "addValidators (RHeader ?c) ?hp1 (Some (length (heap st)))")
          case None
          then show ?thesis
            using m c vary Some stale
            by (auto simp: RoundTrip_def cloneRequest_eq load_clone deref_clone Let_def)
        next
          case (Some hp2)
          then have "RoundTrip env t st r =
              revalidate env (roundTripper env t) (st\<lparr>heap := hp2\<rparr>) ?req ?c"
            using m c vary \<open>getFreshness env (RHeader ?c) (Header (cloned (heap st) r)) = Some f\<close> stale
            by (auto simp: RoundTrip_def cloneRequest_eq load_clone deref_clone Let_def)
          moreover have "\<forall>key. CanonicalHeaderKey key \<noteq> ''If-None-Match'' \<and>
             CanonicalHeaderKey key \<noteq> ''If-Modified-Since'' \<longrightarrow>
             Header_Get (deref hp2 (Some (length (heap st)))) key =
             Header_Get (deref (heap st) (Header r)) key"
            using addValidators_Get[OF Some] same by simp
          ultimately show ?thesis by blast
        qed
      qed
    qed
  qed
qed

text \<open>For a header map with at most one value of \<^verbatim>\<open>Cache-Control\<close>, the first value has a
  directive exactly when the header map carries it.\<close>

lemma carries_one_value:
  assumes "length (Header_index h ''Cache-Control'') \<le> 1"
  shows "carries h d = (directives (Header_Get h ''Cache-Control'') d \<noteq> None)"
proof (cases "Header_index h ''Cache-Control''")
  case Nil
  then show ?thesis
    by (simp add: carries_def Header_Get_def canonical_constants directives_def Trim_def)
next
  case (Cons v vs)
  with assms have "vs = []" by simp
  with Cons show ?thesis
    by (simp add: carries_def Header_Get_def canonical_constants)
qed




section \<open>304 Not Modified\<close>

lemma merge_loop_map_of:
  "map_of (foldl (\<lambda>h header. AList.update header (Header_index hr header) h) h keys) key =
     (if key \<in> set keys then Some (Header_index hr key) else map_of h key)"
  by (induction keys arbitrary: h) (auto simp: update_conv')

lemma merge304_map_of:
  "map_of (RHeader (merge304 cachedResp resp)) key =
     (if key \<in> set (getEndToEndHeaders (RHeader resp))
      then Some (Header_index (RHeader resp) key) else map_of (RHeader cachedResp) key)"
  by (simp add: merge304_def merge_loop_map_of)

lemma merge304_fields:
  "StatusCode (merge304 cachedResp resp) = 200"
  "Status (merge304 cachedResp resp) = ''200 OK''"
  "Body (merge304 cachedResp resp) = Body cachedResp"
  by (simp_all add: merge304_def)

lemma markCached_Body: "Body (markCached t cachedResp) = Body cachedResp"
  by (simp add: markCached_def)

lemma revalidate_calls:
  "calls (snd (revalidate env rt st req cachedResp)) = calls st @ [load (heap st) req]"
  by (simp add: revalidate_def Let_def storeResponse_calls split: sum.split)

lemma revalidate_not_modified:
  assumes "Method req = ''GET''" and "rt (load (heap st) req) = Inr resp" and "StatusCode resp = 304"
  shows "fst (revalidate env rt st req cachedResp) = Ok (merge304 cachedResp resp) \<or>
         fst (revalidate env rt st req cachedResp) =
           Ok (setVaried env (deref (heap st) (Header req)) (merge304 cachedResp resp))"
  using assms
    storeResponse_returns[of env "st\<lparr>calls := calls st @ [load (heap st) req]\<rparr>" req
      "merge304 cachedResp resp"]
  by (simp add: revalidate_def Let_def)

text \<open>Claim C2, as amended. For a GET request for which \<open>CachedResponse\<close> returns a cached
  response, when the delegate is called and answers 304, \<open>RoundTrip\<close> returns a
  response with status code 200 and status \<^verbatim>\<open>200 OK\<close>, with the body of the cached response
  as \<open>CachedResponse\<close> returned it (the stored body, or its slice when the request has a
  \<^verbatim>\<open>Range\<close> header), and with these headers, for every key that does not start with
  \<^verbatim>\<open>X-Varied-\<close>: the values of the 304 for its end-to-end headers, and the values of the
  cached response (marked \<^verbatim>\<open>X-From-Cache\<close> if so configured) for all others. In particular
  the \<^verbatim>\<open>ETag\<close> is the new one when it is an end-to-end header of the 304, that is, present
  and not named in its \<^verbatim>\<open>Connection\<close> header.\<close>

theorem RoundTrip_not_modified:
  assumes m: "Method r = ''GET''"
    and c: "CachedResponse env (Cache st) (cloned (heap st) r) = Ok (Some cachedResp0)"
    and sent: "calls (snd (RoundTrip env t st r)) = calls st @ [sent]"
    and nm: "roundTripper env t sent = Inr resp304" "StatusCode resp304 = 304"
  shows "\<exists>resp. fst (RoundTrip env t st r) = Ok resp \<and>
           StatusCode resp = 200 \<and> Status resp = ''200 OK'' \<and> Body resp = Body cachedResp0 \<and>
           (\<forall>key. \<not> HasPrefix key ''X-Varied-'' \<longrightarrow>
              map_of (RHeader resp) key =
                (if key \<in> set (getEndToEndHeaders (RHeader resp304))
                 then Some (Header_index (RHeader resp304) key)
                 else map_of (RHeader (markCached t cachedResp0)) key)) \<and>
           (''Etag'' \<in> set (getEndToEndHeaders (RHeader resp304)) \<longrightarrow>
              Header_Get (RHeader resp) ''etag'' = Header_Get (RHeader resp304) ''etag'')"
proof -
  let ?hp1 = "heap st @ [Header (cloned (heap st) r)]"
  let ?req = "r\<lparr>Header := Some (length (heap st))\<rparr>"
  let ?c = "markCached t cachedResp0"
  let ?merged = "merge304 ?c resp304"
  have m': "Method r = ''GET'' \<or> Method r = ''HEAD''" using m by simp
  from RoundTrip_hit[OF m' c, of t] sent obtain hp2 where
    rv: "RoundTrip env t st r = revalidate env (roundTripper env t) (st\<lparr>heap := hp2\<rparr>) ?req ?c"
    by auto
  have "calls (snd (RoundTrip env t st r)) = calls st @ [load hp2 ?req]"
    by (simp add: rv revalidate_calls)
  with sent have s: "sent = load hp2 ?req" by simp
  have "fst (RoundTrip env t st r) = Ok ?merged \<or>
        fst (RoundTrip env t st r) = Ok (setVaried env (deref hp2 (Header ?req)) ?merged)"
    unfolding rv
    using revalidate_not_modified[of ?req "roundTripper env t" "st\<lparr>heap := hp2\<rparr>" resp304 env ?c]
      m nm s by simp
  then obtain resp where r: "fst (RoundTrip env t st r) = Ok resp"
    and cases: "resp = ?merged \<or> resp = setVaried env (deref hp2 (Header ?req)) ?merged"
    by blast
  have f: "StatusCode resp = 200 \<and> Status resp = ''200 OK'' \<and> Body resp = Body cachedResp0"
    using cases by (auto simp: merge304_fields setVaried_fields markCached_Body)
  have h: "\<forall>key. \<not> HasPrefix key ''X-Varied-'' \<longrightarrow>
              map_of (RHeader resp) key =
                (if key \<in> set (getEndToEndHeaders (RHeader resp304))
                 then Some (Header_index (RHeader resp304) key)
                 else map_of (RHeader ?c) key)"
    using cases by (auto simp: merge304_map_of setVaried_map_of)
  have e: "''Etag'' \<in> set (getEndToEndHeaders (RHeader resp304)) \<longrightarrow>
              Header_Get (RHeader resp) ''etag'' = Header_Get (RHeader resp304) ''etag''"
  proof
    assume "''Etag'' \<in> set (getEndToEndHeaders (RHeader resp304))"
    moreover have "\<not> HasPrefix ''Etag'' ''X-Varied-''" by (simp add: HasPrefix_def)
    ultimately have "map_of (RHeader resp) ''Etag'' = Some (Header_index (RHeader resp304) ''Etag'')"
      using h by simp
    then show "Header_Get (RHeader resp) ''etag'' = Header_Get (RHeader resp304) ''etag''"
      by (simp add: Header_Get_def Header_index_def canonical_constants)
  qed
  show ?thesis using r f h e by blast
qed

theorem RoundTrip_not_modified_witness:
  "Method (requestOf ''GET'') = ''GET'' \<and>
   CachedResponse exampleEnv (Cache (stateWith storedStale []))
     (cloned (heap (stateWith storedStale [])) (requestOf ''GET'')) = Ok (Some respStale) \<and>
   roundTripper exampleEnv transport304
     \<lparr>Method = ''GET'', URL = ''http://example.com/a'',
      Header = [(''If-None-Match'', [''v1'']),
                (''If-Modified-Since'', [''Mon, 02 Jan 2006 15:00:00 GMT''])]\<rparr> = Inr resp304 \<and>
   StatusCode resp304 = 304 \<and>
   ''Etag'' \<in> set (getEndToEndHeaders (RHeader resp304)) \<and>
   fst (RoundTrip exampleEnv transport304 (stateWith storedStale []) (requestOf ''GET'')) =
     Ok \<lparr>StatusCode = 200, Status = ''200 OK'',
         RHeader = [(''Cache-Control'', [''max-age=30'']),
                    (''Date'', [''Mon, 02 Jan 2006 15:04:05 GMT'']),
                    (''Etag'', [''v2'']),
                    (''Last-Modified'', [''Mon, 02 Jan 2006 15:00:00 GMT'']),
                    (''X-From-Cache'', [''1''])],
         Body = Bytes ''abcdefghij''\<rparr>"
proof -
  let ?sent = "\<lparr>Method = ''GET'', URL = ''http://example.com/a'',
      Header = [(''If-None-Match'', [''v1'']),
                (''If-Modified-Since'', [''Mon, 02 Jan 2006 15:00:00 GMT''])]\<rparr>"
  have m: "Method (requestOf ''GET'') = ''GET''" by (simp add: requestOf_def)
  have c: "CachedResponse exampleEnv (Cache (stateWith storedStale []))
     (cloned (heap (stateWith storedStale [])) (requestOf ''GET'')) = Ok (Some respStale)"
    by code_simp
  have sent: "calls (snd (RoundTrip exampleEnv transport304 (stateWith storedStale []) (requestOf ''GET''))) =
     calls (stateWith storedStale []) @ [?sent]"
    by code_simp
  have nm: "roundTripper exampleEnv transport304 ?sent = Inr resp304" "StatusCode resp304 = 304"
    by (simp_all add: roundTripper_def transport304_def resp304_def)
  note w = RoundTrip_not_modified[OF m c sent nm]
  have ev: "''Etag'' \<in> set (getEndToEndHeaders (RHeader resp304)) \<and>
   fst (RoundTrip exampleEnv transport304 (stateWith storedStale []) (requestOf ''GET'')) =
     Ok \<lparr>StatusCode = 200, Status = ''200 OK'',
         RHeader = [(''Cache-Control'', [''max-age=30'']),
                    (''Date'', [''Mon, 02 Jan 2006 15:04:05 GMT'']),
                    (''Etag'', [''v2'']),
                    (''Last-Modified'', [''Mon, 02 Jan 2006 15:00:00 GMT'']),
                    (''X-From-Cache'', [''1''])],
         Body = Bytes ''abcdefghij''\<rparr>"
    by code_simp
  from w m c nm ev show ?thesis by blast
qed

text \<open>The claim as stated fails in two ways. A 304 that names \<^verbatim>\<open>ETag\<close> in its \<^verbatim>\<open>Connection\<close>
  header carries the new \<^verbatim>\<open>v2\<close>, and the response returned keeps the cached \<^verbatim>\<open>v1\<close>. And for
  a request with \<^verbatim>\<open>Range: bytes=0-3\<close> the response returned has the body \<^verbatim>\<open>abc\<close>, not the
  stored body \<^verbatim>\<open>abcdefghij\<close>.\<close>

theorem RoundTrip_not_modified_counterexample:
  "Header_Get (RHeader resp304Connection) ''etag'' = ''v2'' \<and>
   fst (RoundTrip exampleEnv transport304Connection (stateWith storedStale []) (requestOf ''GET'')) =
     Ok \<lparr>StatusCode = 200, Status = ''200 OK'',
         RHeader = [(''Cache-Control'', [''max-age=30'']),
                    (''Date'', [''Mon, 02 Jan 2006 15:04:05 GMT'']),
                    (''Etag'', [''v1'']),
                    (''Last-Modified'', [''Mon, 02 Jan 2006 15:00:00 GMT'']),
                    (''X-From-Cache'', [''1''])],
         Body = Bytes ''abcdefghij''\<rparr> \<and>
   exampleReadResponse storedStale
     \<lparr>Method = ''GET'', URL = ''http://example.com/a'', Header = [(''Range'', [''bytes=0-3''])]\<rparr> =
     Some respStale \<and>
   Body respStale = Bytes ''abcdefghij'' \<and>
   fst (RoundTrip exampleEnv transport304
          (stateWith storedStale [(''Range'', [''bytes=0-3''])]) (requestOf ''GET'')) =
     Ok \<lparr>StatusCode = 200, Status = ''200 OK'',
         RHeader = [(''Cache-Control'', [''max-age=30'']),
                    (''Date'', [''Mon, 02 Jan 2006 15:04:05 GMT'']),
                    (''Etag'', [''v2'']),
                    (''Last-Modified'', [''Mon, 02 Jan 2006 15:00:00 GMT'']),
                    (''X-From-Cache'', [''1''])],
         Body = Bytes ''abc''\<rparr>"
  by code_simp

end
